theory Spec2Isabelle
  imports Main
begin

section \<open>JavaScript strings\<close>

text \<open>
  A JavaScript string is modelled as the list of its code units, restricted to the
  code units below 256 (\<^typ>\<open>char\<close> has eight bits). The functions of this section are
  the string primitives that the service module \<^verbatim>\<open>services/gemini.ts\<close> and the
  error handler of \<^verbatim>\<open>App.tsx\<close> use.
\<close>

text \<open>The regular-expression class \<^verbatim>\<open>\s\<close> on code units below 256: tab, line feed,
  vertical tab, form feed, carriage return, space and no-break space.\<close>

definition is_space :: "char \<Rightarrow> bool" where
  "is_space c \<longleftrightarrow>
     c = CHR 0x09 \<or> c = CHR 0x0A \<or> c = CHR 0x0B \<or> c = CHR 0x0C \<or> c = CHR 0x0D \<or>
     c = CHR 0x20 \<or> c = CHR 0xA0"

text \<open>\<^verbatim>\<open>String.prototype.toLowerCase\<close> on code units below 256: the letters A-Z and
  the accented capitals 0xC0-0xDE (the multiplication sign 0xD7 apart) move up by 32.\<close>

definition toLowerCase_char :: "char \<Rightarrow> char" where
  "toLowerCase_char c =
     (let n = (of_char c :: nat) in
      if (65 \<le> n \<and> n \<le> 90) \<or> (192 \<le> n \<and> n \<le> 222 \<and> n \<noteq> 215)
      then char_of (n + 32) else c)"

definition toLowerCase :: "string \<Rightarrow> string" where
  "toLowerCase s = map toLowerCase_char s"

text \<open>\<open>startsWith s p\<close>: the string \<open>s\<close> begins with \<open>p\<close> (what an anchor \<^verbatim>\<open>^\<close>
  followed by the literal \<open>p\<close> matches).\<close>

fun startsWith :: "string \<Rightarrow> string \<Rightarrow> bool" where
  "startsWith s [] = True"
| "startsWith [] (p # ps) = False"
| "startsWith (c # cs) (p # ps) = (c = p \<and> startsWith cs ps)"

text \<open>\<open>endsWith s p\<close>: the string \<open>s\<close> ends with \<open>p\<close> (the literal \<open>p\<close> followed by
  the anchor \<^verbatim>\<open>$\<close>, which without the \<^verbatim>\<open>m\<close> flag matches at the end of the input only).\<close>

definition endsWith :: "string \<Rightarrow> string \<Rightarrow> bool" where
  "endsWith s p = startsWith (rev s) (rev p)"

text \<open>\<^verbatim>\<open>String.prototype.includes\<close>: \<open>p\<close> occurs in \<open>s\<close> as a contiguous substring.\<close>

fun js_includes :: "string \<Rightarrow> string \<Rightarrow> bool" where
  "js_includes [] p = (p = [])"
| "js_includes (c # cs) p = (startsWith (c # cs) p \<or> js_includes cs p)"

section \<open>The output normalizer\<close>

text \<open>
  Both \<^verbatim>\<open>bringToLife\<close> and \<^verbatim>\<open>refineCode\<close> end with
  \<^verbatim>\<open>text.replace(/^```html\s*/, '').replace(/^```\s*/, '').replace(/```$/, '')\<close>.
  None of the three expressions has the \<^verbatim>\<open>g\<close> flag, so each replaces at most one
  match, and the anchors fix where that match is; \<^verbatim>\<open>\s*\<close> is greedy.
\<close>

definition fence :: string where
  "fence = ''```''"

definition html_fence :: string where
  "html_fence = ''```html''"

text \<open>\<^verbatim>\<open>.replace(/^```html\s*/, '')\<close>\<close>

definition replace_leading_html_fence :: "string \<Rightarrow> string" where
  "replace_leading_html_fence t =
     (if startsWith t html_fence then dropWhile is_space (drop (length html_fence) t) else t)"

text \<open>\<^verbatim>\<open>.replace(/^```\s*/, '')\<close>\<close>

definition replace_leading_fence :: "string \<Rightarrow> string" where
  "replace_leading_fence t =
     (if startsWith t fence then dropWhile is_space (drop (length fence) t) else t)"

text \<open>\<^verbatim>\<open>.replace(/```$/, '')\<close>\<close>

definition replace_trailing_fence :: "string \<Rightarrow> string" where
  "replace_trailing_fence t =
     (if endsWith t fence then take (length t - length fence) t else t)"

definition normalize_output :: "string \<Rightarrow> string" where
  "normalize_output t =
     replace_trailing_fence (replace_leading_fence (replace_leading_html_fence t))"

section \<open>Failures of the remote call\<close>

text \<open>
  The value that a rejected remote call carries is typed \<^verbatim>\<open>any\<close>; the code probes it at
  fixed paths only. A failure is modelled by what those probes return. The three status
  probes may return any JavaScript value, so they are \<open>jsval\<close>s (numbers are integers
  here; the code compares a status with 429 and 503 only). The message fields are
  strings when present, as for every \<^verbatim>\<open>Error\<close> object and for the error bodies of the
  remote API; \<open>err_json\<close> is the text that the platform function
  \<^verbatim>\<open>JSON.stringify\<close> returns for the failure. Values on which the probes themselves
  would raise (a message that is not a string, a failure that \<^verbatim>\<open>JSON.stringify\<close>
  cannot serialise, such as \<^verbatim>\<open>undefined\<close>) are outside this type.
\<close>

datatype jsval = JUndefined | JNull | JBool bool | JNum int | JStr string

fun truthy :: "jsval \<Rightarrow> bool" where
  "truthy JUndefined = False"
| "truthy JNull = False"
| "truthy (JBool b) = b"
| "truthy (JNum n) = (n \<noteq> 0)"
| "truthy (JStr s) = (s \<noteq> [])"

text \<open>The operator \<^verbatim>\<open>||\<close>: the left operand when it is truthy, the right one otherwise.\<close>

definition js_or :: "jsval \<Rightarrow> jsval \<Rightarrow> jsval" where
  "js_or a b = (if truthy a then a else b)"

text \<open>\<^verbatim>\<open>a || b\<close> on an optional string and a string: an absent or empty \<open>a\<close> is falsy.\<close>

definition str_or :: "string option \<Rightarrow> string \<Rightarrow> string" where
  "str_or a b = (case a of None \<Rightarrow> b | Some t \<Rightarrow> if t \<noteq> [] then t else b)"

record failure =
  err_status :: jsval \<comment> \<open>\<^verbatim>\<open>error?.status\<close>\<close>
  err_response_status :: jsval \<comment> \<open>\<^verbatim>\<open>error?.response?.status\<close>\<close>
  err_error_code :: jsval \<comment> \<open>\<^verbatim>\<open>error?.error?.code\<close>\<close>
  err_error_message :: "string option" \<comment> \<open>\<^verbatim>\<open>error?.error?.message\<close>\<close>
  err_message :: "string option" \<comment> \<open>\<^verbatim>\<open>error?.message\<close>\<close>
  err_json :: string \<comment> \<open>\<^verbatim>\<open>JSON.stringify(error)\<close>\<close>

section \<open>The resilient invoker: \<^verbatim>\<open>generateWithRetry\<close>\<close>

text \<open>\<^verbatim>\<open>const status = error?.status || error?.response?.status || error?.error?.code;\<close>\<close>

definition status :: "failure \<Rightarrow> jsval" where
  "status error = js_or (js_or (err_status error) (err_response_status error)) (err_error_code error)"

text \<open>\<^verbatim>\<open>const message = (error?.message || JSON.stringify(error)).toLowerCase();\<close>\<close>

definition message :: "failure \<Rightarrow> string" where
  "message error = toLowerCase (str_or (err_message error) (err_json error))"

text \<open>The classification of a failure as transient. \<^verbatim>\<open>===\<close> is strict: the string
  \<^verbatim>\<open>"429"\<close> as a status is not the number 429.\<close>

definition isRateLimit :: "failure \<Rightarrow> bool" where
  "isRateLimit error \<longleftrightarrow>
     status error = JNum 429 \<or>
     status error = JNum 503 \<or>
     js_includes (message error) ''429'' \<or>
     js_includes (message error) ''quota'' \<or>
     js_includes (message error) ''resource_exhausted''"

text \<open>
  What the invoker does to the world, in order: \<open>Invoke\<close> is one call of the operation,
  \<open>Warn delay retries\<close> is the line written with \<^verbatim>\<open>console.warn\<close>, \<open>Sleep delay\<close> is the
  suspension \<^verbatim>\<open>await new Promise(resolve => setTimeout(resolve, delay))\<close>, and
  \<open>LogError label error\<close> is a line written with \<^verbatim>\<open>console.error\<close> by the callers.
\<close>

datatype event = Invoke | Warn int int | Sleep int | LogError string failure

text \<open>
  An operation \<^verbatim>\<open>() => Promise<T>\<close> may depend on and change the world outside (the remote
  service answers differently from call to call): it takes the state \<open>'s\<close> of that world
  and returns the new one, with \<open>Inl\<close> for a rejection and \<open>Inr\<close> for a result. Every call
  of the operation is taken to settle. The retry budget and the delay are JavaScript numbers,
  here integers; the delay is in milliseconds.
\<close>

type_synonym ('s, 'a) operation = "'s \<Rightarrow> (failure + 'a) \<times> 's"

function generateWithRetry ::
  "('s, 'a) operation \<Rightarrow> int \<Rightarrow> int \<Rightarrow> 's \<times> event list \<Rightarrow> (failure + 'a) \<times> 's \<times> event list"
where
  "generateWithRetry operation retries delay (s, tr) =
     (case operation s of
        (Inr result, s') \<Rightarrow> (Inr result, s', tr @ [Invoke])
      | (Inl error, s') \<Rightarrow>
          if isRateLimit error \<and> retries > 0
          then generateWithRetry operation (retries - 1) (delay * 2)
                 (s', tr @ [Invoke, Warn delay retries, Sleep delay])
          else (Inl error, s', tr @ [Invoke]))"
  by pat_completeness auto
termination
  by (relation "measure (\<lambda>(operation, retries, delay, w). nat retries)") auto

declare generateWithRetry.simps [simp del]

text \<open>The number of calls of the operation in a trace, and the time spent suspended.\<close>

fun invocations :: "event list \<Rightarrow> nat" where
  "invocations [] = 0"
| "invocations (Invoke # tr) = Suc (invocations tr)"
| "invocations (e # tr) = invocations tr"

fun suspensions :: "event list \<Rightarrow> int list" where
  "suspensions [] = []"
| "suspensions (Sleep d # tr) = d # suspensions tr"
| "suspensions (e # tr) = suspensions tr"

section \<open>The remote generation call\<close>

text \<open>
  \<^verbatim>\<open>ai.models.generateContent\<close> belongs to the SDK, not to this repository: every function
  below takes it as the parameter \<open>generateContent\<close>. A request carries the model
  identifier, the content parts, the system instruction and the sampling temperature (the
  source's decimal literal, counted in tenths). Of the response only the property
  \<^verbatim>\<open>text\<close> is read, a string or \<^verbatim>\<open>undefined\<close>.
\<close>

datatype part = TextPart string | InlineData string string

record request =
  req_model :: string \<comment> \<open>\<^verbatim>\<open>model\<close>\<close>
  req_parts :: "part list" \<comment> \<open>\<^verbatim>\<open>contents.parts\<close>\<close>
  req_systemInstruction :: string \<comment> \<open>\<^verbatim>\<open>config.systemInstruction\<close>\<close>
  req_temperature_tenths :: nat \<comment> \<open>\<^verbatim>\<open>config.temperature\<close>\<close>

record response =
  resp_text :: "string option" \<comment> \<open>\<^verbatim>\<open>response.text\<close>\<close>

type_synonym 's remote = "request \<Rightarrow> ('s, response) operation"

definition GEMINI_MODEL :: string where
  "GEMINI_MODEL = ''gemini-3-pro-preview''"

text \<open>The default arguments \<^verbatim>\<open>retries = 3, delay = 2000\<close> of \<^verbatim>\<open>generateWithRetry\<close>; both
  callers leave them out.\<close>

definition default_retries :: int where
  "default_retries = 3"

definition default_delay :: int where
  "default_delay = 2000"

section \<open>The service module with image parts (\<^verbatim>\<open>src/unnamed/part_000\<close>)\<close>

definition SYSTEM_INSTRUCTION_000 :: string where
  \<open>SYSTEM_INSTRUCTION_000 =
     ''You are the "Gemini Smart Browser Engine".\<newline>'' @
     ''Your goal is to satisfy the user's voice search or command by INSTANTLY generating a fully functional, single-page HTML/JS/CSS web experience that represents the result.\<newline>'' @
     ''\<newline>'' @
     ''CORE DIRECTIVES:\<newline>'' @
     ''1. **Interpret Voice Intent**: \<newline>'' @
     ''    - If the user says "Show me the news", generate a news dashboard.\<newline>'' @
     ''    - If the user says "Play a game of chess", generate a playable chess game.\<newline>'' @
     ''    - If the user says "Calculate my mortgage", generate a mortgage calculator tool.\<newline>'' @
     ''    - If the user uploads an image and says "What is this?", build a page explaining the object with interactive annotations.\<newline>'' @
     ''\<newline>'' @
     ''2. **Visual Style**:\<newline>'' @
     ''    - Use a clean, "Google Material" or modern aesthetic.\<newline>'' @
     ''    - Responsive design is mandatory.\<newline>'' @
     ''\<newline>'' @
     ''3. **NO EXTERNAL RESOURCES**:\<newline>'' @
     ''    - Do NOT use external images (<img> src). Use CSS, SVGs, or Emojis.\<newline>'' @
     ''    - You may use Tailwind CSS (via CDN).\<newline>'' @
     ''\<newline>'' @
     ''4. **Self-Contained**:\<newline>'' @
     ''    - Return ONLY the raw HTML code. Start immediately with <!DOCTYPE html>.\<newline>''\<close>

record imagePart =
  img_data :: string \<comment> \<open>\<^verbatim>\<open>inlineData.data\<close>\<close>
  img_mimeType :: string \<comment> \<open>\<^verbatim>\<open>inlineData.mimeType\<close>\<close>

text \<open>The text part of \<^verbatim>\<open>bringToLife\<close>: the constant \<^verbatim>\<open>finalPrompt\<close>.\<close>

definition finalPrompt :: "string \<Rightarrow> imagePart list \<Rightarrow> string" where
  \<open>finalPrompt prompt images =
     (if length images > 0
      then ''Context: User uploaded an image. Voice Command: "'' @
           (if prompt \<noteq> [] then prompt
            else ''Analyze this image and build a web interface based on it.'') @
           ''". Generate a web interface response.''
      else ''Voice Command: "'' @ prompt @ ''". Generate the web interface for this request.'')\<close>

definition placeholder :: string where
  "placeholder = ''<!-- Failed to generate content -->''"

definition bringToLife_000 ::
  "'s remote \<Rightarrow> string \<Rightarrow> imagePart list \<Rightarrow> 's \<times> event list \<Rightarrow> (failure + string) \<times> 's \<times> event list"
where
  "bringToLife_000 generateContent prompt images w =
     (let parts = TextPart (finalPrompt prompt images) #
                  map (\<lambda>img. InlineData (img_data img) (img_mimeType img)) images
      in case generateWithRetry
                (generateContent \<lparr>req_model = GEMINI_MODEL, req_parts = parts,
                                   req_systemInstruction = SYSTEM_INSTRUCTION_000,
                                   req_temperature_tenths = 6\<rparr>)
                default_retries default_delay w of
           (Inr response, w') \<Rightarrow>
             (Inr (normalize_output (str_or (resp_text response) placeholder)), w')
         | (Inl error, s', tr') \<Rightarrow>
             (Inl error, s', tr' @ [LogError ''Gemini Generation Error:'' error]))"

text \<open>The template literal \<^verbatim>\<open>prompt\<close> of \<^verbatim>\<open>refineCode\<close>.\<close>

definition refine_prompt_000 :: "string \<Rightarrow> string \<Rightarrow> string" where
  \<open>refine_prompt_000 currentHtml refinementPrompt =
     ''\<newline>'' @
     ''    CURRENT CODE:\<newline>'' @
     ''    '' @ currentHtml @ ''\<newline>'' @
     ''\<newline>'' @
     ''    USER REQUEST FOR IMPROVEMENT:\<newline>'' @
     ''    "'' @ refinementPrompt @ ''"\<newline>'' @
     ''\<newline>'' @
     ''    INSTRUCTIONS:\<newline>'' @
     ''    1. Update the CURRENT CODE to match the USER REQUEST.\<newline>'' @
     ''    2. Maintain the same visual style and structure unless asked to change.\<newline>'' @
     ''    3. Return the FULL updated HTML file (do not return just snippets).\<newline>'' @
     ''    4. Ensure the code remains self-contained (no external images except Tailwind CDN).\<newline>'' @
     ''  ''\<close>

definition refineCode_000 ::
  "'s remote \<Rightarrow> string \<Rightarrow> string \<Rightarrow> 's \<times> event list \<Rightarrow> (failure + string) \<times> 's \<times> event list"
where
  "refineCode_000 generateContent currentHtml refinementPrompt w =
     (case generateWithRetry
             (generateContent \<lparr>req_model = GEMINI_MODEL,
                                req_parts = [TextPart (refine_prompt_000 currentHtml refinementPrompt)],
                                req_systemInstruction = SYSTEM_INSTRUCTION_000,
                                req_temperature_tenths = 5\<rparr>)
             default_retries default_delay w of
        (Inr response, w') \<Rightarrow>
          (Inr (normalize_output (str_or (resp_text response) currentHtml)), w')
      | (Inl error, s', tr') \<Rightarrow>
          (Inl error, s', tr' @ [LogError ''Gemini Refine Error:'' error]))"

section \<open>The service module with asset files (\<^verbatim>\<open>src/unnamed/part_001\<close>)\<close>

definition SYSTEM_INSTRUCTION_001 :: string where
  \<open>SYSTEM_INSTRUCTION_001 =
     ''You are the "Gemini Smart Browser Engine".\<newline>'' @
     ''Your goal is to satisfy the user's voice search or command by INSTANTLY generating a fully functional, single-page HTML/JS/CSS web experience that represents the result.\<newline>'' @
     ''\<newline>'' @
     ''CORE DIRECTIVES:\<newline>'' @
     ''1. **Interpret Voice Intent**: \<newline>'' @
     ''    - If the user says "Show me the news", generate a news dashboard.\<newline>'' @
     ''    - If the user says "Play a game of chess", generate a playable chess game.\<newline>'' @
     ''    - If the user says "Calculate my mortgage", generate a mortgage calculator tool.\<newline>'' @
     ''    - If the user uploads an image and says "What is this?", build a page explaining the object with interactive annotations.\<newline>'' @
     ''\<newline>'' @
     ''2. **Visual Style**:\<newline>'' @
     ''    - Use a clean, "Google Material" or modern aesthetic.\<newline>'' @
     ''    - Responsive design is mandatory.\<newline>'' @
     ''\<newline>'' @
     ''3. **ASSET HANDLING**:\<newline>'' @
     ''    - If the user provides assets (Images/Audio), you MUST embed them directly into the HTML code.\<newline>'' @
     ''    - Use Data URIs (base64) for 'src' attributes.\<newline>'' @
     ''    - DO NOT create broken links to local files like './assets/'. Use the provided BASE64 data.\<newline>'' @
     ''\<newline>'' @
     ''4. **Self-Contained**:\<newline>'' @
     ''    - Return ONLY the raw HTML code. Start immediately with <!DOCTYPE html>.\<newline>''\<close>

record assetFile =
  asset_name :: string \<comment> \<open>\<^verbatim>\<open>name\<close>\<close>
  asset_mimeType :: string \<comment> \<open>\<^verbatim>\<open>mimeType\<close>\<close>
  asset_data :: string \<comment> \<open>\<^verbatim>\<open>data\<close>, a Base64 string\<close>

text \<open>The character class \<^verbatim>\<open>[a-zA-Z0-9.-]\<close>.\<close>

definition allowed_char :: "char \<Rightarrow> bool" where
  "allowed_char c \<longleftrightarrow>
     (let n = (of_char c :: nat) in
      (97 \<le> n \<and> n \<le> 122) \<or> (65 \<le> n \<and> n \<le> 90) \<or> (48 \<le> n \<and> n \<le> 57) \<or>
      c = CHR ''.'' \<or> c = CHR ''-'')"

text \<open>\<^verbatim>\<open>asset.name.replace(/[^a-zA-Z0-9.-]/g, '_')\<close>: with the \<^verbatim>\<open>g\<close> flag, every code
  unit outside the class is replaced.\<close>

definition replace_disallowed :: "string \<Rightarrow> string" where
  "replace_disallowed name = map (\<lambda>c. if allowed_char c then c else CHR ''_'') name"

definition virtualPath :: "string \<Rightarrow> string" where
  "virtualPath name = ''/assets/uploads/'' @ replace_disallowed name"

text \<open>The decimal numeral of a natural number, as a template literal prints an index.\<close>

definition digit_char :: "nat \<Rightarrow> char" where
  "digit_char d = char_of (48 + d)"

function string_of_nat :: "nat \<Rightarrow> string" where
  "string_of_nat n =
     (if n < 10 then [digit_char n] else string_of_nat (n div 10) @ [digit_char (n mod 10)])"
  by pat_completeness auto
termination
  by (relation "measure id") auto

declare string_of_nat.simps [simp del]

text \<open>What the callback of \<^verbatim>\<open>assets.forEach\<close> appends to \<^verbatim>\<open>constructedPrompt\<close> for the
  asset at position \<open>index\<close>.\<close>

definition asset_block :: "assetFile \<Rightarrow> nat \<Rightarrow> string" where
  \<open>asset_block asset index =
     ''\<newline>--- ASSET '' @ string_of_nat (index + 1) @ '' ---\<newline>'' @
     ''Filename: '' @ asset_name asset @ ''\<newline>'' @
     ''Virtual Path: '' @ virtualPath (asset_name asset) @ ''\<newline>'' @
     ''MIME: '' @ asset_mimeType asset @ ''\<newline>'' @
     ''DATA (Base64): data:'' @ asset_mimeType asset @ '';base64,'' @ asset_data asset @ ''\<newline>'' @
     ''INSTRUCTION: Wherever the code would logically use "'' @ virtualPath (asset_name asset) @
       ''" (or if the user asked for this file), insert the DATA string above.\<newline>''\<close>

fun forEach_asset :: "assetFile list \<Rightarrow> nat \<Rightarrow> string \<Rightarrow> string" where
  "forEach_asset [] index constructedPrompt = constructedPrompt"
| "forEach_asset (asset # assets) index constructedPrompt =
     forEach_asset assets (index + 1) (constructedPrompt @ asset_block asset index)"

text \<open>The text part of \<^verbatim>\<open>bringToLife\<close>: the variable \<^verbatim>\<open>constructedPrompt\<close> when it is
  pushed to \<^verbatim>\<open>parts\<close>.\<close>

definition constructedPrompt :: "string \<Rightarrow> assetFile list \<Rightarrow> string" where
  \<open>constructedPrompt prompt assets =
     (let p0 = ''Voice Command: "'' @
               (if prompt \<noteq> [] then prompt else ''Build a web interface based on these assets.'') @
               ''".'';
          p1 = (if length assets > 0
                then forEach_asset assets 0
                       (p0 @ ''\<newline>\<newline>[ATTACHED ASSETS DETECTED]\<newline>'' @
                        ''The user has uploaded the following files. You must use them in the generated code.\<newline>'' @
                        ''IMPORTANT: To make them work, you must use the BASE64 data provided below as the 'src'.\<newline>'')
                else p0)
      in p1 @ ''\<newline>Generate the fully functional HTML application now.'')\<close>

definition bringToLife_001 ::
  "'s remote \<Rightarrow> string \<Rightarrow> assetFile list \<Rightarrow> 's \<times> event list \<Rightarrow> (failure + string) \<times> 's \<times> event list"
where
  "bringToLife_001 generateContent prompt assets w =
     (case generateWithRetry
             (generateContent \<lparr>req_model = GEMINI_MODEL,
                                req_parts = [TextPart (constructedPrompt prompt assets)],
                                req_systemInstruction = SYSTEM_INSTRUCTION_001,
                                req_temperature_tenths = 6\<rparr>)
             default_retries default_delay w of
        (Inr response, w') \<Rightarrow>
          (Inr (normalize_output (str_or (resp_text response) placeholder)), w')
      | (Inl error, s', tr') \<Rightarrow>
          (Inl error, s', tr' @ [LogError ''Gemini Generation Error:'' error]))"

text \<open>\<^verbatim>\<open>refineCode\<close> with new assets: the callback of \<^verbatim>\<open>newAssets.forEach\<close> and the
  variable \<^verbatim>\<open>assetContext\<close>.\<close>

definition new_asset_block :: "assetFile \<Rightarrow> nat \<Rightarrow> string" where
  \<open>new_asset_block asset index =
     ''\<newline>--- NEW ASSET '' @ string_of_nat (index + 1) @ '' ---\<newline>'' @
     ''Filename: '' @ asset_name asset @ ''\<newline>'' @
     ''Virtual Path: '' @ virtualPath (asset_name asset) @ ''\<newline>'' @
     ''MIME: '' @ asset_mimeType asset @ ''\<newline>'' @
     ''DATA (Base64): data:'' @ asset_mimeType asset @ '';base64,'' @ asset_data asset @ ''\<newline>'' @
     ''INSTRUCTION: Integrate this new asset into the code. Use the Base64 data for 'src' attributes.\<newline>''\<close>

fun forEach_new_asset :: "assetFile list \<Rightarrow> nat \<Rightarrow> string \<Rightarrow> string" where
  "forEach_new_asset [] index assetContext = assetContext"
| "forEach_new_asset (asset # assets) index assetContext =
     forEach_new_asset assets (index + 1) (assetContext @ new_asset_block asset index)"

definition assetContext :: "assetFile list \<Rightarrow> string" where
  \<open>assetContext newAssets =
     (if length newAssets > 0
      then forEach_new_asset newAssets 0
             (''\<newline>\<newline>[NEW ASSETS PROVIDED]\<newline>'' @
              ''The user has uploaded new files to be added to the project:\<newline>'')
      else [])\<close>

definition refine_prompt_001 :: "string \<Rightarrow> string \<Rightarrow> assetFile list \<Rightarrow> string" where
  \<open>refine_prompt_001 currentHtml refinementPrompt newAssets =
     ''\<newline>'' @
     ''    CURRENT CODE:\<newline>'' @
     ''    '' @ currentHtml @ ''\<newline>'' @
     ''\<newline>'' @
     ''    USER REQUEST FOR IMPROVEMENT:\<newline>'' @
     ''    "'' @ refinementPrompt @ ''"\<newline>'' @
     ''\<newline>'' @
     ''    '' @ assetContext newAssets @ ''\<newline>'' @
     ''\<newline>'' @
     ''    INSTRUCTIONS:\<newline>'' @
     ''    1. Update the CURRENT CODE to match the USER REQUEST.\<newline>'' @
     ''    2. Maintain the same visual style and structure unless asked to change.\<newline>'' @
     ''    3. If new assets are provided, ensure they are implemented correctly using the Data URIs.\<newline>'' @
     ''    4. Return the FULL updated HTML file (do not return just snippets).\<newline>'' @
     ''    5. Ensure the code remains self-contained.\<newline>'' @
     ''  ''\<close>

definition refineCode_001 ::
  "'s remote \<Rightarrow> string \<Rightarrow> string \<Rightarrow> assetFile list \<Rightarrow> 's \<times> event list \<Rightarrow>
     (failure + string) \<times> 's \<times> event list"
where
  "refineCode_001 generateContent currentHtml refinementPrompt newAssets w =
     (case generateWithRetry
             (generateContent \<lparr>req_model = GEMINI_MODEL,
                                req_parts = [TextPart (refine_prompt_001 currentHtml refinementPrompt newAssets)],
                                req_systemInstruction = SYSTEM_INSTRUCTION_001,
                                req_temperature_tenths = 5\<rparr>)
             default_retries default_delay w of
        (Inr response, w') \<Rightarrow>
          (Inr (normalize_output (str_or (resp_text response) currentHtml)), w')
      | (Inl error, s', tr') \<Rightarrow>
          (Inl error, s', tr' @ [LogError ''Gemini Refine Error:'' error]))"

section \<open>The caller's error handler (\<^verbatim>\<open>src/App.tsx\<close>)\<close>

text \<open>
  \<^verbatim>\<open>handleApiError\<close> shows one of two alerts: the quota alert, whose text is fixed, or the
  generic alert, which ends with the first 200 code units of the lower-cased message
  (\<^verbatim>\<open>"Unknown error occurred."\<close> when that is empty).
\<close>

datatype alert = QuotaLimitReached | FailedToRender string

text \<open>The variable \<^verbatim>\<open>msg\<close> after \<^verbatim>\<open>msg = msg.toLowerCase()\<close>.\<close>

definition msg :: "failure \<Rightarrow> string" where
  "msg error =
     toLowerCase
       (case err_error_message error of
          Some m \<Rightarrow> if m \<noteq> [] then m else str_or (err_message error) (err_json error)
        | None \<Rightarrow> str_or (err_message error) (err_json error))"

definition isQuotaError :: "failure \<Rightarrow> bool" where
  "isQuotaError error \<longleftrightarrow>
     js_includes (msg error) ''429'' \<or>
     js_includes (msg error) ''quota'' \<or>
     js_includes (msg error) ''resource_exhausted'' \<or>
     err_error_code error = JNum 429 \<or>
     err_status error = JNum 429"

definition handleApiError :: "failure \<Rightarrow> alert" where
  "handleApiError error =
     (if isQuotaError error then QuotaLimitReached
      else FailedToRender
             (if take 200 (msg error) \<noteq> [] then take 200 (msg error)
              else ''Unknown error occurred.''))"

section \<open>Concrete failures and operations for the examples\<close>

text \<open>
  Failures as plain objects, one for each way in which the classifier can find or miss the
  transient signal, an operation that rejects with the same failure at every call, and an
  operation that rejects with status 429 at its first two calls and resolves from the
  third on (its state counts the calls).
\<close>

definition failure_429 :: failure where
  \<open>failure_429 = \<lparr>err_status = JNum 429, err_response_status = JUndefined,
     err_error_code = JUndefined, err_error_message = None,
     err_message = Some ''Too Many Requests'',
     err_json = ''{"status":429,"message":"Too Many Requests"}''\<rparr>\<close>

definition failure_500 :: failure where
  \<open>failure_500 = \<lparr>err_status = JNum 500, err_response_status = JUndefined,
     err_error_code = JUndefined, err_error_message = None,
     err_message = Some ''Internal Server Error'',
     err_json = ''{"status":500,"message":"Internal Server Error"}''\<rparr>\<close>

definition failure_503 :: failure where
  \<open>failure_503 = \<lparr>err_status = JNum 503, err_response_status = JUndefined,
     err_error_code = JUndefined, err_error_message = None,
     err_message = Some ''Service Unavailable'',
     err_json = ''{"status":503,"message":"Service Unavailable"}''\<rparr>\<close>

text \<open>The status 429 at the second status path, and the status 503 at the third.\<close>

definition failure_response_429 :: failure where
  \<open>failure_response_429 = \<lparr>err_status = JUndefined, err_response_status = JNum 429,
     err_error_code = JUndefined, err_error_message = None,
     err_message = Some ''Too Many Requests'',
     err_json = ''{"response":{"status":429},"message":"Too Many Requests"}''\<rparr>\<close>

definition failure_code_503 :: failure where
  \<open>failure_code_503 = \<lparr>err_status = JUndefined, err_response_status = JUndefined,
     err_error_code = JNum 503, err_error_message = Some ''Service Unavailable'',
     err_message = None,
     err_json = ''{"error":{"code":503,"message":"Service Unavailable"}}''\<rparr>\<close>

text \<open>No status 429 or 503: the signal is in the message text, or, with no message, in
  the serialised failure.\<close>

definition failure_quota_text :: failure where
  \<open>failure_quota_text = \<lparr>err_status = JUndefined, err_response_status = JUndefined,
     err_error_code = JUndefined, err_error_message = None,
     err_message = Some ''Quota exceeded for this project'',
     err_json = ''{"message":"Quota exceeded for this project"}''\<rparr>\<close>

definition failure_429_text :: failure where
  \<open>failure_429_text = \<lparr>err_status = JUndefined, err_response_status = JUndefined,
     err_error_code = JUndefined, err_error_message = None,
     err_message = Some ''Request failed with status code 429'',
     err_json = ''{"message":"Request failed with status code 429"}''\<rparr>\<close>

definition failure_resource_exhausted :: failure where
  \<open>failure_resource_exhausted = \<lparr>err_status = JUndefined, err_response_status = JUndefined,
     err_error_code = JNum 8, err_error_message = None,
     err_message = None,
     err_json = ''{"error":{"code":8,"status":"RESOURCE_EXHAUSTED"}}''\<rparr>\<close>

text \<open>No signal for the invoker: the status is the string \<^verbatim>\<open>"429"\<close>, or the first truthy
  status is 500 and hides the error code 429 behind it.\<close>

definition failure_string_status :: failure where
  \<open>failure_string_status = \<lparr>err_status = JStr ''429'', err_response_status = JUndefined,
     err_error_code = JUndefined, err_error_message = None,
     err_message = Some ''Too Many Requests'',
     err_json = ''{"status":"429","message":"Too Many Requests"}''\<rparr>\<close>

definition failure_shadowed_code :: failure where
  \<open>failure_shadowed_code = \<lparr>err_status = JNum 500, err_response_status = JUndefined,
     err_error_code = JNum 429, err_error_message = None,
     err_message = Some ''Internal Server Error'',
     err_json = ''{"status":500,"error":{"code":429},"message":"Internal Server Error"}''\<rparr>\<close>

text \<open>The status 503 in front of the error code 429.\<close>

definition failure_503_code_429 :: failure where
  \<open>failure_503_code_429 = \<lparr>err_status = JNum 503, err_response_status = JUndefined,
     err_error_code = JNum 429, err_error_message = None,
     err_message = Some ''Service Unavailable'',
     err_json = ''{"status":503,"error":{"code":429},"message":"Service Unavailable"}''\<rparr>\<close>

text \<open>A failure whose own message names no limit while the message of its nested
  \<^verbatim>\<open>error\<close> object does.\<close>

definition failure_nested_quota :: failure where
  \<open>failure_nested_quota = \<lparr>err_status = JUndefined, err_response_status = JUndefined,
     err_error_code = JUndefined, err_error_message = Some ''Quota exceeded for project'',
     err_message = Some ''Bad Request'',
     err_json = ''{"message":"Bad Request","error":{"message":"Quota exceeded for project"}}''\<rparr>\<close>

definition always_fails :: "failure \<Rightarrow> (unit, 'a) operation" where
  "always_fails error = (\<lambda>s. (Inl error, s))"

definition fails_twice :: "'a \<Rightarrow> (nat, 'a) operation" where
  "fails_twice result = (\<lambda>n. (if n < 2 then Inl failure_429 else Inr result, Suc n))"

section \<open>Properties of the string primitives\<close>

lemma startsWith_iff_take: "startsWith s p \<longleftrightarrow> take (length p) s = p"
  by (induction s p rule: startsWith.induct) auto

lemma startsWith_append [simp]: "startsWith (p @ t) p"
  by (simp add: startsWith_iff_take)

lemma startsWith_length: "startsWith s p \<Longrightarrow> length p \<le> length s"
  by (induction s p rule: startsWith.induct) auto

lemma startsWith_prefix: "startsWith s (p @ q) \<Longrightarrow> startsWith s p"
  by (induction s p rule: startsWith.induct) auto

lemma startsWith_append_foreign:
  "startsWith (s @ c # t) p \<Longrightarrow> c \<notin> set p \<Longrightarrow> startsWith s p"
  by (induction s p rule: startsWith.induct) auto

lemma startsWith_decompose: "startsWith s p \<Longrightarrow> s = p @ drop (length p) s"
  using append_take_drop_id [of "length p" s] by (simp add: startsWith_iff_take)

lemma endsWith_length: "endsWith s p \<Longrightarrow> length p \<le> length s"
  using startsWith_length [of "rev s" "rev p"] by (simp add: endsWith_def)

lemma endsWith_append [simp]: "endsWith (t @ p) p"
  by (simp add: endsWith_def)

lemma endsWith_decompose: "endsWith s p \<Longrightarrow> s = take (length s - length p) s @ p"
proof -
  assume "endsWith s p"
  then have "rev s = rev p @ drop (length (rev p)) (rev s)"
    unfolding endsWith_def by (rule startsWith_decompose)
  then have "rev (rev s) = rev (rev p @ drop (length (rev p)) (rev s))" by simp
  then show ?thesis by (simp add: rev_drop)
qed

lemma js_includes_startsWith: "startsWith s p \<Longrightarrow> js_includes s p"
  by (cases s) (auto elim: startsWith.elims)

lemma js_includes_append: "js_includes (a @ p @ b) p"
proof (induction a)
  case Nil
  show ?case using js_includes_startsWith [of "p @ b" p] by simp
next
  case (Cons c a)
  then show ?case by simp
qed

lemma js_includes_endsWith: "endsWith s p \<Longrightarrow> js_includes s p"
  using endsWith_decompose [of s p] js_includes_append [of "take (length s - length p) s" p "[]"]
  by simp

section \<open>Properties of the output normalizer\<close>

lemmas normalize_output_eval =
  normalize_output_def replace_leading_html_fence_def replace_leading_fence_def
  replace_trailing_fence_def fence_def html_fence_def endsWith_def is_space_def

lemma html_fence_startsWith_fence: "startsWith t html_fence \<Longrightarrow> startsWith t fence"
  using startsWith_prefix [of t fence "''html''"] by (simp add: html_fence_def fence_def)

lemma length_replace_leading_html_fence:
  "length (replace_leading_html_fence t) \<le> length t"
  using length_dropWhile_le [of is_space "drop (length html_fence) t"]
  by (auto simp add: replace_leading_html_fence_def)

lemma length_replace_leading_fence:
  "length (replace_leading_fence t) \<le> length t"
  using length_dropWhile_le [of is_space "drop (length fence) t"]
  by (auto simp add: replace_leading_fence_def)

lemma length_replace_leading_fence_less:
  "startsWith t fence \<Longrightarrow> length (replace_leading_fence t) < length t"
  using length_dropWhile_le [of is_space "drop (length fence) t"] startsWith_length [of t fence]
  by (simp add: replace_leading_fence_def fence_def)

lemma length_replace_leading_html_fence_less:
  "startsWith t html_fence \<Longrightarrow> length (replace_leading_html_fence t) < length t"
  using length_dropWhile_le [of is_space "drop (length html_fence) t"]
    startsWith_length [of t html_fence]
  by (simp add: replace_leading_html_fence_def html_fence_def)

lemma length_replace_trailing_fence:
  "length (replace_trailing_fence t) \<le> length t"
  by (simp add: replace_trailing_fence_def)

lemma length_replace_trailing_fence_less:
  "endsWith t fence \<Longrightarrow> length (replace_trailing_fence t) < length t"
  using endsWith_length [of t fence] by (simp add: replace_trailing_fence_def fence_def)

text \<open>A string with no marker at its start and none at its end passes through unchanged.\<close>

lemma normalize_output_unfenced:
  assumes "\<not> startsWith t fence" and "\<not> endsWith t fence"
  shows "normalize_output t = t"
proof -
  from assms(1) have "\<not> startsWith t html_fence"
    using html_fence_startsWith_fence by blast
  with assms show ?thesis
    by (simp add: normalize_output_def replace_leading_html_fence_def
        replace_leading_fence_def replace_trailing_fence_def)
qed

text \<open>A string with a marker at its start or at its end gets strictly shorter.\<close>

lemma normalize_output_shorter:
  assumes "startsWith t fence \<or> endsWith t fence"
  shows "length (normalize_output t) < length t"
proof (cases "startsWith t html_fence")
  case True
  have "length (normalize_output t) \<le> length (replace_leading_html_fence t)"
    unfolding normalize_output_def
    using length_replace_trailing_fence length_replace_leading_fence le_trans by blast
  with True show ?thesis
    using length_replace_leading_html_fence_less [of t] by simp
next
  case nohtml: False
  then have h: "replace_leading_html_fence t = t"
    by (simp add: replace_leading_html_fence_def)
  show ?thesis
  proof (cases "startsWith t fence")
    case True
    have "length (normalize_output t) \<le> length (replace_leading_fence t)"
      unfolding normalize_output_def h by (rule length_replace_trailing_fence)
    with True show ?thesis
      using length_replace_leading_fence_less [of t] by simp
  next
    case False
    with assms have e: "endsWith t fence" by simp
    from False have "replace_leading_fence t = t"
      by (simp add: replace_leading_fence_def)
    with h e show ?thesis
      unfolding normalize_output_def using length_replace_trailing_fence_less [of t] by simp
  qed
qed

lemma normalize_output_fixed_iff:
  "normalize_output t = t \<longleftrightarrow> \<not> startsWith t fence \<and> \<not> endsWith t fence"
  using normalize_output_unfenced [of t] normalize_output_shorter [of t] by auto

text \<open>
  C5, as stated (the normalizer is idempotent on every string), does not hold: each of
  the three replacements removes one marker only, so an input that ends with two markers
  keeps one after the first pass and loses it in the second.
\<close>

theorem normalize_output_not_idempotent:
  "normalize_output (normalize_output ''x``````'') \<noteq> normalize_output ''x``````''"
  by (simp add: normalize_output_eval)

text \<open>
  C5, amended. The strings that the normalizer returns unchanged are exactly those with
  no marker \<^verbatim>\<open>```\<close> at the start and none at the end. So normalizing twice gives the same
  as normalizing once exactly when the once-normalized string has no marker left at either
  end.
\<close>

theorem normalize_output_idempotent_iff:
  "(normalize_output t = t \<longleftrightarrow> \<not> startsWith t fence \<and> \<not> endsWith t fence) \<and>
   (normalize_output (normalize_output s) = normalize_output s \<longleftrightarrow>
      \<not> startsWith (normalize_output s) fence \<and> \<not> endsWith (normalize_output s) fence)"
  using normalize_output_fixed_iff [of t] normalize_output_fixed_iff [of "normalize_output s"]
  by blast

theorem normalize_output_idempotent_iff_witness:
  "normalize_output ''<p>hi</p>'' = ''<p>hi</p>'' \<and>
   normalize_output (normalize_output ''```html\<newline><p>hi</p>```'') =
     normalize_output ''```html\<newline><p>hi</p>```''"
  using normalize_output_idempotent_iff [of "''<p>hi</p>''" "''```html\<newline><p>hi</p>```''"]
  by (simp add: normalize_output_eval)

text \<open>
  C6, as stated (the response \<^verbatim>\<open>```html\<close>, newline, body, newline, \<^verbatim>\<open>```\<close> is normalized
  to exactly the body), does not hold on the scenario of the specification: the leading
  expression takes the white space after the marker with it, the trailing expression
  \<^verbatim>\<open>/```$/\<close> takes the marker only, and the newline before it stays.
\<close>

theorem normalize_output_scenario_keeps_newline:
  "normalize_output ''```html\<newline><!DOCTYPE html>...\<newline>```'' \<noteq> ''<!DOCTYPE html>...''"
  by (simp add: normalize_output_eval)

text \<open>
  C6, amended. For a body that begins with a character that is not white space and that
  does not begin with a marker, the response \<^verbatim>\<open>```html\<close>, newline, body, newline,
  \<^verbatim>\<open>```\<close> is normalized to the body followed by the newline that stood before the
  closing marker; both markers are gone. An input in which no marker occurs is returned
  unchanged.
\<close>

theorem normalize_output_html_block:
  "(body = c # rest \<and> \<not> is_space c \<and> \<not> startsWith body fence \<longrightarrow>
      normalize_output (''```html\<newline>'' @ body @ ''\<newline>```'') = body @ ''\<newline>'') \<and>
   (\<not> js_includes s fence \<longrightarrow> normalize_output s = s)"
proof (intro conjI impI)
  assume a: "body = c # rest \<and> \<not> is_space c \<and> \<not> startsWith body fence"
  have 1: "replace_leading_html_fence (''```html\<newline>'' @ body @ ''\<newline>```'') =
             body @ ''\<newline>```''"
    using a by (simp add: replace_leading_html_fence_def html_fence_def is_space_def)
  have "\<not> startsWith (body @ ''\<newline>```'') fence"
    using a startsWith_append_foreign [of body "CHR 0x0A" fence fence]
    by (auto simp add: fence_def)
  then have 2: "replace_leading_fence (body @ ''\<newline>```'') = body @ ''\<newline>```''"
    by (simp add: replace_leading_fence_def)
  have "endsWith ((body @ ''\<newline>'') @ fence) fence" by (rule endsWith_append)
  then have 3: "replace_trailing_fence (body @ ''\<newline>```'') = body @ ''\<newline>''"
    by (simp add: replace_trailing_fence_def fence_def)
  show "normalize_output (''```html\<newline>'' @ body @ ''\<newline>```'') = body @ ''\<newline>''"
    unfolding normalize_output_def 1 2 3 ..
next
  assume "\<not> js_includes s fence"
  then have "\<not> startsWith s fence" and "\<not> endsWith s fence"
    using js_includes_startsWith js_includes_endsWith by blast+
  then show "normalize_output s = s" by (rule normalize_output_unfenced)
qed

theorem normalize_output_html_block_witness:
  "normalize_output ''```html\<newline><!DOCTYPE html>...\<newline>```'' = ''<!DOCTYPE html>...\<newline>'' \<and>
   normalize_output ''<p>plain</p>'' = ''<p>plain</p>''"
  using normalize_output_html_block
    [of "''<!DOCTYPE html>...''" "CHR ''<''" "''!DOCTYPE html>...''" "''<p>plain</p>''"]
  by (simp add: is_space_def fence_def)

section \<open>Properties of the resilient invoker\<close>

lemma invocations_append [simp]: "invocations (a @ b) = invocations a + invocations b"
  by (induction a rule: invocations.induct) auto

lemma suspensions_append [simp]: "suspensions (a @ b) = suspensions a @ suspensions b"
  by (induction a rule: suspensions.induct) auto

lemma generateWithRetry_success:
  "operation s = (Inr result, s') \<Longrightarrow>
     generateWithRetry operation retries delay (s, tr) = (Inr result, s', tr @ [Invoke])"
  by (subst generateWithRetry.simps) simp

lemma generateWithRetry_retry:
  "operation s = (Inl error, s') \<Longrightarrow> isRateLimit error \<Longrightarrow> retries > 0 \<Longrightarrow>
     generateWithRetry operation retries delay (s, tr) =
       generateWithRetry operation (retries - 1) (delay * 2)
         (s', tr @ [Invoke, Warn delay retries, Sleep delay])"
  by (subst generateWithRetry.simps) simp

lemma generateWithRetry_propagate:
  "operation s = (Inl error, s') \<Longrightarrow> \<not> (isRateLimit error \<and> retries > 0) \<Longrightarrow>
     generateWithRetry operation retries delay (s, tr) = (Inl error, s', tr @ [Invoke])"
  by (subst generateWithRetry.simps) auto

lemma generateWithRetry_trace:
  "\<exists>res s' rest. generateWithRetry operation retries delay (s, tr) = (res, s', tr @ Invoke # rest) \<and>
     (\<forall>tr0. generateWithRetry operation retries delay (s, tr0) = (res, s', tr0 @ Invoke # rest))"
proof (induction "nat retries" arbitrary: retries delay s tr)
  case 0
  then have r: "\<not> retries > 0" by simp
  obtain out s' where o: "operation s = (out, s')" by (cases "operation s")
  show ?case
  proof (cases out)
    case (Inl error)
    with o r show ?thesis by (simp add: generateWithRetry_propagate)
  next
    case (Inr result)
    with o show ?thesis by (simp add: generateWithRetry_success)
  qed
next
  case (Suc n)
  obtain out s' where o: "operation s = (out, s')" by (cases "operation s")
  show ?case
  proof (cases out)
    case (Inr result)
    with o show ?thesis by (simp add: generateWithRetry_success)
  next
    case (Inl error)
    show ?thesis
    proof (cases "isRateLimit error \<and> retries > 0")
      case False
      with o Inl show ?thesis by (simp add: generateWithRetry_propagate)
    next
      case True
      from Suc.hyps(2) have n: "n = nat (retries - 1)" by simp
      from Suc.hyps(1) [OF n, of "delay * 2" s' "[]"]
      obtain res s'' rest where
        g: "\<forall>tr0. generateWithRetry operation (retries - 1) (delay * 2) (s', tr0) =
               (res, s'', tr0 @ Invoke # rest)"
        by blast
      have "\<forall>tr0. generateWithRetry operation retries delay (s, tr0) =
              (res, s'', tr0 @ Invoke # (Warn delay retries # Sleep delay # Invoke # rest))"
        using o Inl True g by (simp add: generateWithRetry_retry)
      then show ?thesis by blast
    qed
  qed
qed


lemmas classify_eval =
  isRateLimit_def status_def message_def js_or_def str_or_def toLowerCase_def
  toLowerCase_char_def char_of_def bit_iff_odd

lemma isRateLimit_429: "isRateLimit failure_429"
  by (simp add: isRateLimit_def status_def js_or_def failure_429_def)

lemma isRateLimit_503: "isRateLimit failure_503"
  by (simp add: isRateLimit_def status_def js_or_def failure_503_def)

lemma not_isRateLimit_500: "\<not> isRateLimit failure_500"
  by (simp add: classify_eval failure_500_def)

lemmas fixture_eval =
  failure_429_def failure_500_def failure_503_def failure_nested_quota_def
  failure_response_429_def failure_code_503_def failure_quota_text_def failure_429_text_def
  failure_resource_exhausted_def failure_string_status_def failure_shadowed_code_def
  failure_503_code_429_def
  always_fails_def fails_twice_def default_retries_def default_delay_def

text \<open>The classifier in terms of what it reads from the failure.\<close>

lemma isRateLimit_probes:
  "isRateLimit x \<longleftrightarrow>
     (let st = (if truthy (err_status x) then err_status x
                else if truthy (err_response_status x) then err_response_status x
                else err_error_code x);
          m = toLowerCase (case err_message x of
                             None \<Rightarrow> err_json x
                           | Some t \<Rightarrow> if t \<noteq> [] then t else err_json x)
      in st = JNum 429 \<or> st = JNum 503 \<or>
         js_includes m ''429'' \<or> js_includes m ''quota'' \<or> js_includes m ''resource_exhausted'')"
  by (simp add: isRateLimit_def status_def message_def js_or_def str_or_def Let_def)

text \<open>
  C1. When a call of the operation fails, the invoker retries exactly when the failure
  carries a transient signal and the budget is positive. The signal is written out in the
  statement: the status, which is the first truthy value among \<^verbatim>\<open>error.status\<close>,
  \<^verbatim>\<open>error.response.status\<close> and \<^verbatim>\<open>error.error.code\<close>, is the number 429 or 503, or the
  lower-cased message text (the serialised failure when the message is absent or empty)
  contains \<^verbatim>\<open>429\<close>, \<^verbatim>\<open>quota\<close> or \<^verbatim>\<open>resource_exhausted\<close>. Retrying is: write the warning,
  suspend for the current delay, and run the invoker again with the budget less one and the
  delay doubled. In every other case the result is the failure of the operation itself,
  unchanged, and the trace grows by the one call only: no warning and no suspension. The
  retry is visible in the trace: the call is followed by a suspension and a further call
  exactly under that condition.
\<close>

theorem generateWithRetry_retries_iff:
  assumes "operation s = (Inl error, s')"
  shows
    "let st = (if truthy (err_status error) then err_status error
               else if truthy (err_response_status error) then err_response_status error
               else err_error_code error);
         m = toLowerCase (case err_message error of
                            None \<Rightarrow> err_json error
                          | Some t \<Rightarrow> if t \<noteq> [] then t else err_json error);
         transient = (st = JNum 429 \<or> st = JNum 503 \<or>
                      js_includes m ''429'' \<or> js_includes m ''quota'' \<or>
                      js_includes m ''resource_exhausted'')
     in (transient \<and> retries > 0 \<longrightarrow>
           generateWithRetry operation retries delay (s, tr) =
             generateWithRetry operation (retries - 1) (delay * 2)
               (s', tr @ [Invoke, Warn delay retries, Sleep delay])) \<and>
        (\<not> (transient \<and> retries > 0) \<longrightarrow>
           generateWithRetry operation retries delay (s, tr) = (Inl error, s', tr @ [Invoke])) \<and>
        ((\<exists>rest. snd (snd (generateWithRetry operation retries delay (s, tr))) =
                   tr @ Invoke # Warn delay retries # Sleep delay # Invoke # rest)
           \<longleftrightarrow> transient \<and> retries > 0)"
proof -
  have main:
    "(isRateLimit error \<and> retries > 0 \<longrightarrow>
        generateWithRetry operation retries delay (s, tr) =
          generateWithRetry operation (retries - 1) (delay * 2)
            (s', tr @ [Invoke, Warn delay retries, Sleep delay])) \<and>
     (\<not> (isRateLimit error \<and> retries > 0) \<longrightarrow>
        generateWithRetry operation retries delay (s, tr) = (Inl error, s', tr @ [Invoke])) \<and>
     ((\<exists>rest. snd (snd (generateWithRetry operation retries delay (s, tr))) =
                tr @ Invoke # Warn delay retries # Sleep delay # Invoke # rest)
        \<longleftrightarrow> isRateLimit error \<and> retries > 0)"
  proof (cases "isRateLimit error \<and> retries > 0")
    case True
    let ?tr = "tr @ [Invoke, Warn delay retries, Sleep delay]"
    have g: "generateWithRetry operation retries delay (s, tr) =
               generateWithRetry operation (retries - 1) (delay * 2) (s', ?tr)"
      using assms True by (simp add: generateWithRetry_retry)
    from generateWithRetry_trace [of operation "retries - 1" "delay * 2" s' ?tr]
    obtain rest where "snd (snd (generateWithRetry operation (retries - 1) (delay * 2) (s', ?tr))) =
        ?tr @ Invoke # rest"
      by auto
    then have "snd (snd (generateWithRetry operation retries delay (s, tr))) =
        tr @ Invoke # Warn delay retries # Sleep delay # Invoke # rest"
      unfolding g by simp
    with True g show ?thesis by blast
  next
    case False
    then have "generateWithRetry operation retries delay (s, tr) = (Inl error, s', tr @ [Invoke])"
      using assms by (simp add: generateWithRetry_propagate)
    then have "snd (snd (generateWithRetry operation retries delay (s, tr))) = tr @ [Invoke]"
      and "\<not> (isRateLimit error \<and> retries > 0) \<longrightarrow>
              generateWithRetry operation retries delay (s, tr) = (Inl error, s', tr @ [Invoke])"
      by simp_all
    with False show ?thesis by auto
  qed
  show ?thesis
    using main unfolding isRateLimit_probes [of error] Let_def .
qed

text \<open>
  The witness runs the invoker on one failure for each way of carrying the signal (status
  429 and 503 at each status path, each of the three texts, in the message or in the
  serialised failure) and for each way of missing it (status 500, the string \<^verbatim>\<open>"429"\<close> as
  status, the error code 429 behind a truthy status 500, a marker in the nested message
  only), and on a transient failure with the budget 0.
\<close>

theorem generateWithRetry_retries_iff_witness:
  "generateWithRetry (always_fails failure_429 :: (unit, unit) operation) 1 2000 ((), []) =
     (Inl failure_429, (), [Invoke, Warn 2000 1, Sleep 2000, Invoke]) \<and>
   generateWithRetry (always_fails failure_503 :: (unit, unit) operation) 1 2000 ((), []) =
     (Inl failure_503, (), [Invoke, Warn 2000 1, Sleep 2000, Invoke]) \<and>
   generateWithRetry (always_fails failure_response_429 :: (unit, unit) operation) 1 2000 ((), []) =
     (Inl failure_response_429, (), [Invoke, Warn 2000 1, Sleep 2000, Invoke]) \<and>
   generateWithRetry (always_fails failure_code_503 :: (unit, unit) operation) 1 2000 ((), []) =
     (Inl failure_code_503, (), [Invoke, Warn 2000 1, Sleep 2000, Invoke]) \<and>
   generateWithRetry (always_fails failure_quota_text :: (unit, unit) operation) 1 2000 ((), []) =
     (Inl failure_quota_text, (), [Invoke, Warn 2000 1, Sleep 2000, Invoke]) \<and>
   generateWithRetry (always_fails failure_429_text :: (unit, unit) operation) 1 2000 ((), []) =
     (Inl failure_429_text, (), [Invoke, Warn 2000 1, Sleep 2000, Invoke]) \<and>
   generateWithRetry (always_fails failure_resource_exhausted :: (unit, unit) operation) 1 2000 ((), []) =
     (Inl failure_resource_exhausted, (), [Invoke, Warn 2000 1, Sleep 2000, Invoke]) \<and>
   generateWithRetry (always_fails failure_500 :: (unit, unit) operation) 3 2000 ((), []) = (Inl failure_500, (), [Invoke]) \<and>
   generateWithRetry (always_fails failure_string_status :: (unit, unit) operation) 3 2000 ((), []) = (Inl failure_string_status, (), [Invoke]) \<and>
   generateWithRetry (always_fails failure_shadowed_code :: (unit, unit) operation) 3 2000 ((), []) = (Inl failure_shadowed_code, (), [Invoke]) \<and>
   generateWithRetry (always_fails failure_nested_quota :: (unit, unit) operation) 3 2000 ((), []) = (Inl failure_nested_quota, (), [Invoke]) \<and>
   generateWithRetry (always_fails failure_429 :: (unit, unit) operation) 0 2000 ((), []) = (Inl failure_429, (), [Invoke])"
  using
    generateWithRetry_retries_iff [where operation = "always_fails failure_429 :: (unit, unit) operation" and s = "()"
        and error = failure_429 and s' = "()" and retries = 1 and delay = 2000 and tr = "[]"]
    generateWithRetry_retries_iff [where operation = "always_fails failure_503 :: (unit, unit) operation" and s = "()"
        and error = failure_503 and s' = "()" and retries = 1 and delay = 2000 and tr = "[]"]
    generateWithRetry_retries_iff [where operation = "always_fails failure_response_429 :: (unit, unit) operation" and s = "()"
        and error = failure_response_429 and s' = "()" and retries = 1 and delay = 2000 and tr = "[]"]
    generateWithRetry_retries_iff [where operation = "always_fails failure_code_503 :: (unit, unit) operation" and s = "()"
        and error = failure_code_503 and s' = "()" and retries = 1 and delay = 2000 and tr = "[]"]
    generateWithRetry_retries_iff [where operation = "always_fails failure_quota_text :: (unit, unit) operation" and s = "()"
        and error = failure_quota_text and s' = "()" and retries = 1 and delay = 2000 and tr = "[]"]
    generateWithRetry_retries_iff [where operation = "always_fails failure_429_text :: (unit, unit) operation" and s = "()"
        and error = failure_429_text and s' = "()" and retries = 1 and delay = 2000 and tr = "[]"]
    generateWithRetry_retries_iff [where operation = "always_fails failure_resource_exhausted :: (unit, unit) operation" and s = "()"
        and error = failure_resource_exhausted and s' = "()" and retries = 1 and delay = 2000 and tr = "[]"]
    generateWithRetry_retries_iff [where operation = "always_fails failure_500 :: (unit, unit) operation" and s = "()"
        and error = failure_500 and s' = "()" and retries = 3 and delay = 2000 and tr = "[]"]
    generateWithRetry_retries_iff [where operation = "always_fails failure_string_status :: (unit, unit) operation" and s = "()"
        and error = failure_string_status and s' = "()" and retries = 3 and delay = 2000 and tr = "[]"]
    generateWithRetry_retries_iff [where operation = "always_fails failure_shadowed_code :: (unit, unit) operation" and s = "()"
        and error = failure_shadowed_code and s' = "()" and retries = 3 and delay = 2000 and tr = "[]"]
    generateWithRetry_retries_iff [where operation = "always_fails failure_nested_quota :: (unit, unit) operation" and s = "()"
        and error = failure_nested_quota and s' = "()" and retries = 3 and delay = 2000 and tr = "[]"]
    generateWithRetry_retries_iff [where operation = "always_fails failure_429 :: (unit, unit) operation" and s = "()"
        and error = failure_429 and s' = "()" and retries = 0 and delay = 2000 and tr = "[]"]
  by (simp add: generateWithRetry.simps classify_eval fixture_eval Let_def)

lemma sum_doubling: "sum_list (map (\<lambda>i. d * 2 ^ i) [0..<k]) = d * (2 ^ k - 1)" for d :: int
  by (induction k) (simp_all add: algebra_simps)

lemma generateWithRetry_shape:
  "\<exists>k\<le>nat retries.
     suspensions (snd (snd (generateWithRetry operation retries delay (s, tr)))) =
       suspensions tr @ map (\<lambda>i. delay * 2 ^ i) [0..<k] \<and>
     invocations (snd (snd (generateWithRetry operation retries delay (s, tr)))) =
       invocations tr + k + 1"
proof (induction "nat retries" arbitrary: retries delay s tr)
  case 0
  then have r: "\<not> retries > 0" by simp
  obtain out s' where o: "operation s = (out, s')" by (cases "operation s")
  show ?case
  proof (cases out)
    case (Inl error)
    with o r show ?thesis by (simp add: generateWithRetry_propagate)
  next
    case (Inr result)
    with o show ?thesis by (simp add: generateWithRetry_success)
  qed
next
  case (Suc n)
  obtain out s' where o: "operation s = (out, s')" by (cases "operation s")
  show ?case
  proof (cases out)
    case (Inr result)
    with o show ?thesis by (simp add: generateWithRetry_success)
  next
    case (Inl error)
    show ?thesis
    proof (cases "isRateLimit error \<and> retries > 0")
      case False
      with o Inl show ?thesis by (simp add: generateWithRetry_propagate)
    next
      case True
      let ?tr = "tr @ [Invoke, Warn delay retries, Sleep delay]"
      let ?w = "generateWithRetry operation (retries - 1) (delay * 2) (s', ?tr)"
      from Suc.hyps(2) have n: "n = nat (retries - 1)" by simp
      from Suc.hyps(1) [OF n, of "delay * 2" s' ?tr]
      obtain k where k: "k \<le> nat (retries - 1)"
        and sus: "suspensions (snd (snd ?w)) =
                    suspensions ?tr @ map (\<lambda>i. delay * 2 * 2 ^ i) [0..<k]"
        and inv: "invocations (snd (snd ?w)) = invocations ?tr + k + 1"
        by blast
      have g: "generateWithRetry operation retries delay (s, tr) = ?w"
        using o Inl True by (simp add: generateWithRetry_retry)
      have "Suc k \<le> nat retries" using k True by linarith
      moreover have "suspensions (snd (snd ?w)) =
          suspensions tr @ map (\<lambda>i. delay * 2 ^ i) [0..<Suc k]"
        unfolding sus by (simp add: map_upt_Suc del: upt_Suc)
      moreover have "invocations (snd (snd ?w)) = invocations tr + Suc k + 1"
        unfolding inv by simp
      ultimately show ?thesis unfolding g by blast
    qed
  qed
qed

text \<open>
  C2. The recursion of \<open>generateWithRetry\<close> is on a budget that decreases by one while it
  is positive, which is its termination proof above: with every call of the operation
  settling, the invoker returns. It calls the operation at most \<open>retries + 1\<close> times
  (\<open>nat retries\<close> is \<open>retries\<close> for a budget that is not negative; a negative budget
  gives one call). With the default budget 3 and the default delay 2000 that is at most 4
  calls, and the suspensions add up to at most 2000 + 4000 + 8000 = 14000 milliseconds.
\<close>

theorem generateWithRetry_bounded:
  "invocations (snd (snd (generateWithRetry operation retries delay (s, tr))))
     \<le> invocations tr + nat retries + 1 \<and>
   invocations (snd (snd (generateWithRetry operation default_retries default_delay (s, tr))))
     \<le> invocations tr + 4 \<and>
   sum_list (suspensions (snd (snd (generateWithRetry operation default_retries default_delay (s, tr)))))
     \<le> sum_list (suspensions tr) + 14000"
proof (intro conjI)
  from generateWithRetry_shape [of retries operation delay s tr]
  show "invocations (snd (snd (generateWithRetry operation retries delay (s, tr))))
     \<le> invocations tr + nat retries + 1" by auto
next
  from generateWithRetry_shape [of default_retries operation default_delay s tr]
  show "invocations (snd (snd (generateWithRetry operation default_retries default_delay (s, tr))))
     \<le> invocations tr + 4" by (auto simp add: default_retries_def)
next
  from generateWithRetry_shape [of default_retries operation default_delay s tr]
  obtain k where k: "k \<le> 3"
    and sus: "suspensions (snd (snd (generateWithRetry operation default_retries default_delay (s, tr)))) =
       suspensions tr @ map (\<lambda>i. default_delay * 2 ^ i) [0..<k]"
    by (auto simp add: default_retries_def)
  have "(2::int) ^ k \<le> 2 ^ 3" using k by (intro power_increasing) simp_all
  then have "default_delay * (2 ^ k - 1) \<le> 14000"
    by (simp add: default_delay_def)
  then show "sum_list (suspensions (snd (snd (generateWithRetry operation default_retries default_delay (s, tr)))))
     \<le> sum_list (suspensions tr) + 14000"
    unfolding sus by (simp add: sum_doubling)
qed

theorem generateWithRetry_bounded_witness:
  "invocations (snd (snd (generateWithRetry (always_fails failure_429 :: (unit, unit) operation)
      default_retries default_delay ((), [])))) = 4 \<and>
   sum_list (suspensions (snd (snd (generateWithRetry (always_fails failure_429 :: (unit, unit) operation)
      default_retries default_delay ((), []))))) = 14000"
  using generateWithRetry_bounded [of "always_fails failure_429 :: (unit, unit) operation" 3 2000 "()" "[]"]
  by (simp add: generateWithRetry.simps classify_eval fixture_eval)

text \<open>
  C3. If the operation fails with status 429 at its first and second call and succeeds at
  its third, the invoker with the default budget 3 and the default delay 2000 returns the
  result of the third call, after exactly two suspensions, of 2000 and then 4000
  milliseconds.
\<close>

theorem generateWithRetry_two_failures_then_success:
  assumes "operation s0 = (Inl e1, s1)" and "status e1 = JNum 429"
    and "operation s1 = (Inl e2, s2)" and "status e2 = JNum 429"
    and "operation s2 = (Inr result, s3)"
  shows "generateWithRetry operation default_retries default_delay (s0, tr) =
           (Inr result, s3,
            tr @ [Invoke, Warn 2000 3, Sleep 2000, Invoke, Warn 4000 2, Sleep 4000, Invoke]) \<and>
         suspensions (snd (snd (generateWithRetry operation default_retries default_delay (s0, tr)))) =
           suspensions tr @ [2000, 4000]"
proof -
  have r1: "isRateLimit e1" and r2: "isRateLimit e2"
    using assms(2,4) by (simp_all add: isRateLimit_def)
  have "generateWithRetry operation 3 2000 (s0, tr) =
          generateWithRetry operation 2 4000 (s1, tr @ [Invoke, Warn 2000 3, Sleep 2000])"
    using assms(1) r1 generateWithRetry_retry [where operation = operation and s = s0
        and error = e1 and s' = s1 and retries = 3 and delay = 2000 and tr = tr]
    by simp
  also have "\<dots> = generateWithRetry operation 1 8000
                    (s2, tr @ [Invoke, Warn 2000 3, Sleep 2000, Invoke, Warn 4000 2, Sleep 4000])"
    using assms(3) r2 generateWithRetry_retry [where operation = operation and s = s1
        and error = e2 and s' = s2 and retries = 2 and delay = 4000
        and tr = "tr @ [Invoke, Warn 2000 3, Sleep 2000]"]
    by simp
  also have "\<dots> = (Inr result, s3,
            tr @ [Invoke, Warn 2000 3, Sleep 2000, Invoke, Warn 4000 2, Sleep 4000, Invoke])"
    using assms(5) generateWithRetry_success [where operation = operation and s = s2
        and result = result and s' = s3 and retries = 1 and delay = 8000
        and tr = "tr @ [Invoke, Warn 2000 3, Sleep 2000, Invoke, Warn 4000 2, Sleep 4000]"]
    by simp
  finally show ?thesis by (simp add: default_retries_def default_delay_def)
qed

theorem generateWithRetry_two_failures_then_success_witness:
  "generateWithRetry (fails_twice ''<html></html>'') default_retries default_delay (0, []) =
     (Inr ''<html></html>'', 3,
      [Invoke, Warn 2000 3, Sleep 2000, Invoke, Warn 4000 2, Sleep 4000, Invoke]) \<and>
   suspensions (snd (snd (generateWithRetry (fails_twice ''<html></html>'')
      default_retries default_delay (0, [])))) = [2000, 4000]"
proof -
  have a: "fails_twice ''<html></html>'' 0 = (Inl failure_429, 1)"
    and b: "fails_twice ''<html></html>'' 1 = (Inl failure_429, 2)"
    and c: "fails_twice ''<html></html>'' 2 = (Inr ''<html></html>'', 3)"
    by (simp_all add: fails_twice_def)
  have s: "status failure_429 = JNum 429"
    by (simp add: status_def js_or_def failure_429_def)
  show ?thesis
    using a b c s generateWithRetry_two_failures_then_success
      [where operation = "fails_twice ''<html></html>''" and ?s0.0 = 0 and ?e1.0 = failure_429
        and ?s1.0 = 1 and ?e2.0 = failure_429 and ?s2.0 = 2 and result = "''<html></html>''"
        and ?s3.0 = 3 and tr = "[]"]
    by simp
qed


lemmas handler_eval =
  handleApiError_def isQuotaError_def msg_def str_or_def toLowerCase_def toLowerCase_char_def
  char_of_def bit_iff_odd

lemma generateWithRetry_all_transient:
  assumes "\<forall>k\<le>nat retries. \<exists>e. fst (operation (((snd \<circ> operation) ^^ k) s)) = Inl e \<and> isRateLimit e"
  shows "fst (generateWithRetry operation retries delay (s, tr)) =
           fst (operation (((snd \<circ> operation) ^^ nat retries) s)) \<and>
         invocations (snd (snd (generateWithRetry operation retries delay (s, tr)))) =
           invocations tr + nat retries + 1"
  using assms
proof (induction "nat retries" arbitrary: retries delay s tr)
  case 0
  then obtain e where e: "fst (operation s) = Inl e" by auto
  then obtain s' where o: "operation s = (Inl e, s')" by (cases "operation s") auto
  from 0 have "\<not> (isRateLimit e \<and> retries > 0)" by simp
  with o have "generateWithRetry operation retries delay (s, tr) = (Inl e, s', tr @ [Invoke])"
    by (simp add: generateWithRetry_propagate)
  with 0 e show ?case by simp
next
  case (Suc n)
  from Suc.prems have "\<exists>e. fst (operation (((snd \<circ> operation) ^^ 0) s)) = Inl e \<and> isRateLimit e"
    by blast
  then obtain e where e: "fst (operation s) = Inl e" and t: "isRateLimit e" by auto
  then obtain s' where o: "operation s = (Inl e, s')" by (cases "operation s") auto
  from Suc.hyps(2) have pos: "retries > 0" and n: "n = nat (retries - 1)" by simp_all
  let ?tr = "tr @ [Invoke, Warn delay retries, Sleep delay]"
  have g: "generateWithRetry operation retries delay (s, tr) =
             generateWithRetry operation (retries - 1) (delay * 2) (s', ?tr)"
    using o t pos by (simp add: generateWithRetry_retry)
  have s': "s' = (snd \<circ> operation) s" using o by simp
  have shift: "((snd \<circ> operation) ^^ k) s' = ((snd \<circ> operation) ^^ Suc k) s" for k
    unfolding s' by (simp add: funpow_swap1)
  have "\<forall>k\<le>nat (retries - 1).
          \<exists>e. fst (operation (((snd \<circ> operation) ^^ k) s')) = Inl e \<and> isRateLimit e"
  proof (intro allI impI)
    fix k assume "k \<le> nat (retries - 1)"
    then have "Suc k \<le> nat retries" using pos by linarith
    with Suc.prems show "\<exists>e. fst (operation (((snd \<circ> operation) ^^ k) s')) = Inl e \<and> isRateLimit e"
      unfolding shift by blast
  qed
  from Suc.hyps(1) [OF n this, of "delay * 2" ?tr]
  have "fst (generateWithRetry operation (retries - 1) (delay * 2) (s', ?tr)) =
          fst (operation (((snd \<circ> operation) ^^ nat (retries - 1)) s'))"
    and "invocations (snd (snd (generateWithRetry operation (retries - 1) (delay * 2) (s', ?tr)))) =
          invocations ?tr + nat (retries - 1) + 1"
    by simp_all
  moreover have "Suc (nat (retries - 1)) = nat retries" using pos by linarith
  ultimately show ?case unfolding g shift by simp
qed

text \<open>The converse: a failure that surfaces with the signal on it comes from a run in
  which every call failed with a transient failure and the whole budget was used.\<close>

lemma generateWithRetry_surfaced_transient:
  assumes "generateWithRetry operation retries delay (s, tr) = (Inl e, s', tr')"
    and "isRateLimit e"
  shows "(\<forall>k\<le>nat retries. \<exists>e'. fst (operation (((snd \<circ> operation) ^^ k) s)) = Inl e' \<and> isRateLimit e') \<and>
         fst (operation (((snd \<circ> operation) ^^ nat retries) s)) = Inl e \<and>
         invocations tr' = invocations tr + nat retries + 1 \<and>
         length (suspensions tr') = length (suspensions tr) + nat retries"
  using assms
proof (induction "nat retries" arbitrary: retries delay s tr)
  case 0
  then have r: "\<not> retries > 0" by simp
  obtain out s1 where o: "operation s = (out, s1)" by (cases "operation s")
  show ?case
  proof (cases out)
    case (Inr result)
    with o "0.prems"(1) show ?thesis by (simp add: generateWithRetry_success)
  next
    case (Inl e0)
    with o r have "generateWithRetry operation retries delay (s, tr) = (Inl e0, s1, tr @ [Invoke])"
      by (simp add: generateWithRetry_propagate)
    with "0.prems"(1) have "e0 = e" and "tr' = tr @ [Invoke]" by simp_all
    with o Inl "0.prems"(2) "0.hyps" show ?thesis by simp
  qed
next
  case (Suc n)
  from Suc.hyps(2) have pos: "retries > 0" and n: "n = nat (retries - 1)" by simp_all
  obtain out s1 where o: "operation s = (out, s1)" by (cases "operation s")
  show ?case
  proof (cases out)
    case (Inr result)
    with o Suc.prems(1) show ?thesis by (simp add: generateWithRetry_success)
  next
    case (Inl e0)
    have t0: "isRateLimit e0"
    proof (rule ccontr)
      assume "\<not> isRateLimit e0"
      with o Inl have "generateWithRetry operation retries delay (s, tr) = (Inl e0, s1, tr @ [Invoke])"
        by (simp add: generateWithRetry_propagate)
      with Suc.prems(1) have "e0 = e" by simp
      with Suc.prems(2) \<open>\<not> isRateLimit e0\<close> show False by simp
    qed
    let ?tr = "tr @ [Invoke, Warn delay retries, Sleep delay]"
    have g: "generateWithRetry operation retries delay (s, tr) =
               generateWithRetry operation (retries - 1) (delay * 2) (s1, ?tr)"
      using o Inl t0 pos by (simp add: generateWithRetry_retry)
    with Suc.prems(1)
    have g': "generateWithRetry operation (retries - 1) (delay * 2) (s1, ?tr) = (Inl e, s', tr')"
      by simp
    note ih = Suc.hyps(1) [OF n g' Suc.prems(2)]
    have s1: "s1 = (snd \<circ> operation) s" using o by simp
    have shift: "((snd \<circ> operation) ^^ k) s1 = ((snd \<circ> operation) ^^ Suc k) s" for k
      unfolding s1 by (simp add: funpow_swap1)
    have suc: "Suc (nat (retries - 1)) = nat retries" using pos by linarith
    have all: "\<forall>k\<le>nat retries. \<exists>e'. fst (operation (((snd \<circ> operation) ^^ k) s)) = Inl e' \<and> isRateLimit e'"
    proof (intro allI impI)
      fix k assume k: "k \<le> nat retries"
      show "\<exists>e'. fst (operation (((snd \<circ> operation) ^^ k) s)) = Inl e' \<and> isRateLimit e'"
      proof (cases k)
        case 0
        with o Inl t0 show ?thesis by simp
      next
        case (Suc j)
        with k suc have "j \<le> nat (retries - 1)" by linarith
        with ih have "\<exists>e'. fst (operation (((snd \<circ> operation) ^^ j) s1)) = Inl e' \<and> isRateLimit e'"
          by blast
        then show ?thesis unfolding shift Suc .
      qed
    qed
    have last: "fst (operation (((snd \<circ> operation) ^^ nat retries) s)) = Inl e"
      using ih unfolding shift suc by blast
    have inv: "invocations tr' = invocations tr + nat retries + 1"
      using ih suc by simp
    have sus: "length (suspensions tr') = length (suspensions tr) + nat retries"
      using ih suc by simp
    from all last inv sus show ?thesis by blast
  qed
qed

text \<open>The test of the handler in terms of what it reads from the failure.\<close>

lemma handleApiError_probes:
  "handleApiError x = QuotaLimitReached \<longleftrightarrow>
     (let m = toLowerCase (case err_error_message x of
                             Some t \<Rightarrow> if t \<noteq> [] then t
                                       else (case err_message x of
                                               None \<Rightarrow> err_json x
                                             | Some u \<Rightarrow> if u \<noteq> [] then u else err_json x)
                           | None \<Rightarrow> (case err_message x of
                                        None \<Rightarrow> err_json x
                                      | Some u \<Rightarrow> if u \<noteq> [] then u else err_json x))
      in js_includes m ''429'' \<or> js_includes m ''quota'' \<or> js_includes m ''resource_exhausted'' \<or>
         err_error_code x = JNum 429 \<or> err_status x = JNum 429)"
  by (simp add: handleApiError_def isQuotaError_def msg_def str_or_def Let_def
      split: option.splits)

text \<open>
  C4. When each of the \<open>retries + 1\<close> calls fails with a failure that carries the transient
  signal, the invoker ends with a failure: the failure of the last call, unchanged, after
  \<open>retries + 1\<close> calls and \<open>retries\<close> suspensions, and it carries the signal. Conversely a
  failure that surfaces with the signal on it was retried until the budget was exhausted,
  and with a positive budget a failure that surfaces after a single call, never retried,
  does not carry the signal. So the signal on the surfaced failure, written out in the
  first conjunct, tells the caller a retry-exhausted failure from one that was never
  retried. The last conjunct is the test by which the handler of \<^verbatim>\<open>App.tsx\<close> chooses its
  quota alert.
\<close>

theorem generateWithRetry_exhausted:
  "(isRateLimit x \<longleftrightarrow>
      (let st = (if truthy (err_status x) then err_status x
                 else if truthy (err_response_status x) then err_response_status x
                 else err_error_code x);
           m = toLowerCase (case err_message x of
                              None \<Rightarrow> err_json x
                            | Some t \<Rightarrow> if t \<noteq> [] then t else err_json x)
       in st = JNum 429 \<or> st = JNum 503 \<or>
          js_includes m ''429'' \<or> js_includes m ''quota'' \<or>
          js_includes m ''resource_exhausted'')) \<and>
   ((\<forall>k\<le>nat retries. \<exists>e'. fst (operation (((snd \<circ> operation) ^^ k) s)) = Inl e' \<and>
                            isRateLimit e') \<longrightarrow>
      (\<exists>e. fst (generateWithRetry operation retries delay (s, tr)) = Inl e \<and>
           isRateLimit e \<and>
           fst (operation (((snd \<circ> operation) ^^ nat retries) s)) = Inl e \<and>
           invocations (snd (snd (generateWithRetry operation retries delay (s, tr)))) =
             invocations tr + nat retries + 1 \<and>
           length (suspensions (snd (snd (generateWithRetry operation retries delay (s, tr))))) =
             length (suspensions tr) + nat retries)) \<and>
   (fst (generateWithRetry operation retries delay (s, tr)) = Inl e \<and> isRateLimit e \<longrightarrow>
      (\<forall>k\<le>nat retries. \<exists>e'. fst (operation (((snd \<circ> operation) ^^ k) s)) = Inl e' \<and>
                               isRateLimit e') \<and>
      invocations (snd (snd (generateWithRetry operation retries delay (s, tr)))) =
        invocations tr + nat retries + 1) \<and>
   (0 < retries \<and>
    fst (generateWithRetry operation retries delay (s, tr)) = Inl e \<and>
    invocations (snd (snd (generateWithRetry operation retries delay (s, tr)))) =
      invocations tr + 1 \<longrightarrow>
      \<not> isRateLimit e) \<and>
   (handleApiError x = QuotaLimitReached \<longleftrightarrow>
      (let m = toLowerCase (case err_error_message x of
                              Some t \<Rightarrow> if t \<noteq> [] then t
                                        else (case err_message x of
                                                None \<Rightarrow> err_json x
                                              | Some u \<Rightarrow> if u \<noteq> [] then u else err_json x)
                            | None \<Rightarrow> (case err_message x of
                                         None \<Rightarrow> err_json x
                                       | Some u \<Rightarrow> if u \<noteq> [] then u else err_json x))
       in js_includes m ''429'' \<or> js_includes m ''quota'' \<or>
          js_includes m ''resource_exhausted'' \<or>
          err_error_code x = JNum 429 \<or> err_status x = JNum 429))"
proof -
  let ?g = "generateWithRetry operation retries delay (s, tr)"
  let ?all = "\<forall>k\<le>nat retries. \<exists>e'. fst (operation (((snd \<circ> operation) ^^ k) s)) = Inl e' \<and>
                                   isRateLimit e'"
  have surfaced:
    "?all \<and> fst (operation (((snd \<circ> operation) ^^ nat retries) s)) = Inl f \<and>
     invocations (snd (snd ?g)) = invocations tr + nat retries + 1 \<and>
     length (suspensions (snd (snd ?g))) = length (suspensions tr) + nat retries"
    if "fst ?g = Inl f" and "isRateLimit f" for f
  proof -
    from that(1) have "?g = (Inl f, fst (snd ?g), snd (snd ?g))"
      by (cases ?g) simp
    from generateWithRetry_surfaced_transient [OF this that(2)] show ?thesis .
  qed
  have exhausted:
    "\<exists>e. fst ?g = Inl e \<and> isRateLimit e \<and>
         fst (operation (((snd \<circ> operation) ^^ nat retries) s)) = Inl e \<and>
         invocations (snd (snd ?g)) = invocations tr + nat retries + 1 \<and>
         length (suspensions (snd (snd ?g))) = length (suspensions tr) + nat retries"
    if a: ?all
  proof -
    from a obtain f where f: "fst (operation (((snd \<circ> operation) ^^ nat retries) s)) = Inl f"
      and t: "isRateLimit f" by blast
    from generateWithRetry_all_transient [OF a, of delay tr] f
    have "fst ?g = Inl f" by simp
    with surfaced [OF this t] t show ?thesis by blast
  qed
  have single: "\<not> isRateLimit e"
    if "0 < retries" and "fst ?g = Inl e"
      and "invocations (snd (snd ?g)) = invocations tr + 1"
  proof
    assume "isRateLimit e"
    from surfaced [OF that(2) this]
    have "invocations (snd (snd ?g)) = invocations tr + nat retries + 1" by blast
    with that(1,3) show False by auto
  qed
  show ?thesis
    using isRateLimit_probes [of x] handleApiError_probes [of x] exhausted surfaced [of e] single
    by blast
qed

theorem generateWithRetry_exhausted_witness:
  "fst (generateWithRetry (always_fails failure_429 :: (unit, unit) operation) 3 2000 ((), [])) =
     Inl failure_429 \<and>
   isRateLimit failure_429 \<and>
   invocations (snd (snd (generateWithRetry (always_fails failure_429 :: (unit, unit) operation)
     3 2000 ((), [])))) = 4 \<and>
   length (suspensions (snd (snd (generateWithRetry
     (always_fails failure_429 :: (unit, unit) operation) 3 2000 ((), []))))) = 3 \<and>
   handleApiError failure_429 = QuotaLimitReached \<and>
   fst (generateWithRetry (always_fails failure_500 :: (unit, unit) operation) 3 2000 ((), [])) =
     Inl failure_500 \<and>
   invocations (snd (snd (generateWithRetry (always_fails failure_500 :: (unit, unit) operation)
     3 2000 ((), [])))) = 1 \<and>
   \<not> isRateLimit failure_500 \<and>
   fst (generateWithRetry (always_fails failure_quota_text :: (unit, unit) operation)
     3 2000 ((), [])) = Inl failure_quota_text \<and>
   invocations (snd (snd (generateWithRetry
     (always_fails failure_quota_text :: (unit, unit) operation) 3 2000 ((), [])))) = 4 \<and>
   handleApiError failure_quota_text = QuotaLimitReached"
proof -
  let ?op4 = "always_fails failure_429 :: (unit, unit) operation"
  let ?op5 = "always_fails failure_500 :: (unit, unit) operation"
  let ?opq = "always_fails failure_quota_text :: (unit, unit) operation"
  have tq: "isRateLimit failure_quota_text"
    by (simp add: classify_eval failure_quota_text_def)
  have "((snd \<circ> ?opq) ^^ k) () = ()" for k
    by simp
  then have aq: "\<forall>k\<le>nat 3. \<exists>e'. fst (?opq (((snd \<circ> ?opq) ^^ k) ())) = Inl e' \<and> isRateLimit e'"
    using tq by (simp add: always_fails_def)
  note tquota = generateWithRetry_exhausted [where operation = ?opq
      and retries = 3 and delay = 2000 and s = "()" and tr = "[]" and x = failure_quota_text
      and e = failure_quota_text]
  from mp [OF tquota [THEN conjunct2, THEN conjunct1] aq]
  have third:
    "fst (generateWithRetry ?opq 3 2000 ((), [])) = Inl failure_quota_text \<and>
     invocations (snd (snd (generateWithRetry ?opq 3 2000 ((), [])))) = 4"
    by (auto simp add: always_fails_def)
  have quota_text: "handleApiError failure_quota_text = QuotaLimitReached"
    using tquota [THEN conjunct2, THEN conjunct2, THEN conjunct2, THEN conjunct2]
    by (simp add: failure_quota_text_def toLowerCase_def toLowerCase_char_def char_of_def
        bit_iff_odd)
  have "((snd \<circ> ?op4) ^^ k) () = ()" for k
    by simp
  then have a: "\<forall>k\<le>nat 3. \<exists>e'. fst (?op4 (((snd \<circ> ?op4) ^^ k) ())) = Inl e' \<and> isRateLimit e'"
    using isRateLimit_429 by (simp add: always_fails_def)
  have b: "generateWithRetry ?op5 3 2000 ((), []) = (Inl failure_500, (), [Invoke])"
    using not_isRateLimit_500
    by (simp add: generateWithRetry_propagate [where s' = "()"] always_fails_def)
  note t429 = generateWithRetry_exhausted [where operation = ?op4
      and retries = 3 and delay = 2000 and s = "()" and tr = "[]" and x = failure_429
      and e = failure_429]
  note t500 = generateWithRetry_exhausted [where operation = ?op5
      and retries = 3 and delay = 2000 and s = "()" and tr = "[]" and x = failure_500
      and e = failure_500]
  from mp [OF t429 [THEN conjunct2, THEN conjunct1] a]
  have first:
    "fst (generateWithRetry ?op4 3 2000 ((), [])) = Inl failure_429 \<and>
     invocations (snd (snd (generateWithRetry ?op4 3 2000 ((), [])))) = 4 \<and>
     length (suspensions (snd (snd (generateWithRetry ?op4 3 2000 ((), []))))) = 3"
    by (auto simp add: always_fails_def)
  have quota: "handleApiError failure_429 = QuotaLimitReached"
    using t429 [THEN conjunct2, THEN conjunct2, THEN conjunct2, THEN conjunct2]
    by (simp add: failure_429_def)
  have second: "\<not> isRateLimit failure_500"
    using t500 [THEN conjunct2, THEN conjunct2, THEN conjunct2, THEN conjunct1] b by simp
  from first quota second third quota_text b isRateLimit_429 show ?thesis by simp
qed

text \<open>
  Remark. The handler does not take over the classification of the invoker: it tests the
  surfaced failure again, with the test above, and the two tests differ in both directions.
  A failure retried to exhaustion for status 503 gets the generic alert, unless its error
  code is 429; a failure that the invoker does not classify as transient, and so never
  retries, gets the quota alert when its nested message names a quota or its error code,
  behind a truthy status 500, is 429.
\<close>

lemma handleApiError_own_test:
  "generateWithRetry (always_fails failure_503 :: (unit, unit) operation)
       default_retries default_delay ((), []) =
     (Inl failure_503, (),
      [Invoke, Warn 2000 3, Sleep 2000, Invoke, Warn 4000 2, Sleep 4000,
       Invoke, Warn 8000 1, Sleep 8000, Invoke]) \<and>
   handleApiError failure_503 = FailedToRender ''service unavailable'' \<and>
   generateWithRetry (always_fails failure_503_code_429 :: (unit, unit) operation)
       default_retries default_delay ((), []) =
     (Inl failure_503_code_429, (),
      [Invoke, Warn 2000 3, Sleep 2000, Invoke, Warn 4000 2, Sleep 4000,
       Invoke, Warn 8000 1, Sleep 8000, Invoke]) \<and>
   handleApiError failure_503_code_429 = QuotaLimitReached \<and>
   generateWithRetry (always_fails failure_nested_quota :: (unit, unit) operation)
       default_retries default_delay ((), []) = (Inl failure_nested_quota, (), [Invoke]) \<and>
   handleApiError failure_nested_quota = QuotaLimitReached \<and>
   generateWithRetry (always_fails failure_shadowed_code :: (unit, unit) operation)
       default_retries default_delay ((), []) = (Inl failure_shadowed_code, (), [Invoke]) \<and>
   handleApiError failure_shadowed_code = QuotaLimitReached \<and>
   generateWithRetry (always_fails failure_500 :: (unit, unit) operation)
       default_retries default_delay ((), []) = (Inl failure_500, (), [Invoke]) \<and>
   handleApiError failure_500 = FailedToRender ''internal server error''"
  by (simp add: generateWithRetry.simps classify_eval handler_eval fixture_eval)

section \<open>Properties of the request builders\<close>

lemma forEach_asset_extends: "\<exists>b. forEach_asset assets i acc = acc @ b"
proof (induction assets arbitrary: i acc)
  case Nil
  show ?case by simp
next
  case (Cons x xs)
  from Cons [of "i + 1" "acc @ asset_block x i"] show ?case by auto
qed

lemma forEach_asset_block:
  "k < length assets \<Longrightarrow> \<exists>a b. forEach_asset assets i acc = a @ asset_block (assets ! k) (i + k) @ b"
proof (induction assets arbitrary: i acc k)
  case Nil
  then show ?case by simp
next
  case (Cons x xs)
  show ?case
  proof (cases k)
    case 0
    from forEach_asset_extends [of xs "i + 1" "acc @ asset_block x i"]
    obtain b where "forEach_asset xs (i + 1) (acc @ asset_block x i) = (acc @ asset_block x i) @ b"
      by blast
    with 0 show ?thesis by auto
  next
    case (Suc k')
    with Cons.prems have "k' < length xs" by simp
    from Cons.IH [OF this, of "i + 1" "acc @ asset_block x i"] Suc show ?thesis by auto
  qed
qed

lemma constructedPrompt_block:
  assumes "k < length assets"
  shows "js_includes (constructedPrompt prompt assets) (asset_block (assets ! k) k)"
proof -
  from assms have ne: "length assets > 0" by auto
  from forEach_asset_block [OF assms, of 0]
  obtain a b where "constructedPrompt prompt assets =
      a @ asset_block (assets ! k) k @ (b @ ''\<newline>Generate the fully functional HTML application now.'')"
    unfolding constructedPrompt_def Let_def using ne by fastforce
  then show ?thesis using js_includes_append by simp
qed

lemma length_replace_disallowed: "length (replace_disallowed name) = length name"
  by (simp add: replace_disallowed_def)

lemma nth_replace_disallowed:
  "i < length name \<Longrightarrow>
     replace_disallowed name ! i = (if allowed_char (name ! i) then name ! i else CHR ''_'')"
  by (simp add: replace_disallowed_def)

lemma string_of_nat_1: "string_of_nat (Suc 0) = ''1''"
  by (simp add: string_of_nat.simps digit_char_def char_of_def bit_iff_odd)

lemma virtualPath_My_Photo: "virtualPath ''My Photo.png'' = ''/assets/uploads/My_Photo.png''"
  by (simp add: virtualPath_def replace_disallowed_def allowed_char_def)

lemma constructedPrompt_My_Photo:
  \<open>constructedPrompt prompt [\<lparr>asset_name = ''My Photo.png'', asset_mimeType = mime, asset_data = data\<rparr>] =
     ''Voice Command: "'' @
     (if prompt \<noteq> [] then prompt else ''Build a web interface based on these assets.'') @
     ''".\<newline>\<newline>[ATTACHED ASSETS DETECTED]\<newline>'' @
     ''The user has uploaded the following files. You must use them in the generated code.\<newline>'' @
     ''IMPORTANT: To make them work, you must use the BASE64 data provided below as the 'src'.\<newline>'' @
     ''\<newline>--- ASSET 1 ---\<newline>'' @
     ''Filename: My Photo.png\<newline>'' @
     ''Virtual Path: /assets/uploads/My_Photo.png\<newline>'' @
     ''MIME: '' @ mime @ ''\<newline>'' @
     ''DATA (Base64): data:'' @ mime @ '';base64,'' @ data @ ''\<newline>'' @
     ''INSTRUCTION: Wherever the code would logically use "/assets/uploads/My_Photo.png" (or if the user asked for this file), insert the DATA string above.\<newline>'' @
     ''\<newline>Generate the fully functional HTML application now.''\<close>
  by (simp add: constructedPrompt_def asset_block_def virtualPath_My_Photo string_of_nat_1)

text \<open>
  C7. For one attachment named \<^verbatim>\<open>My Photo.png\<close> the virtual path is
  \<^verbatim>\<open>/assets/uploads/My_Photo.png\<close>: the space is replaced by an underscore and the letters,
  the dot and the extension stay. The text part of the request, written out below for any
  prompt, MIME type and data, names that path in its \<^verbatim>\<open>Virtual Path\<close> line and again in the
  instruction to insert the Base64 data string wherever the path would be used. In general,
  the text part contains the block of every attachment of the list, and the virtual path is
  the prefix \<^verbatim>\<open>/assets/uploads/\<close> followed by the name in which every character outside
  \<^verbatim>\<open>[a-zA-Z0-9.-]\<close>, and no other, is replaced by an underscore.
\<close>

theorem constructedPrompt_virtual_path:
  \<open>virtualPath ''My Photo.png'' = ''/assets/uploads/My_Photo.png'' \<and>
   constructedPrompt prompt [\<lparr>asset_name = ''My Photo.png'', asset_mimeType = mime, asset_data = data\<rparr>] =
     ''Voice Command: "'' @
     (if prompt \<noteq> [] then prompt else ''Build a web interface based on these assets.'') @
     ''".\<newline>\<newline>[ATTACHED ASSETS DETECTED]\<newline>'' @
     ''The user has uploaded the following files. You must use them in the generated code.\<newline>'' @
     ''IMPORTANT: To make them work, you must use the BASE64 data provided below as the 'src'.\<newline>'' @
     ''\<newline>--- ASSET 1 ---\<newline>'' @
     ''Filename: My Photo.png\<newline>'' @
     ''Virtual Path: /assets/uploads/My_Photo.png\<newline>'' @
     ''MIME: '' @ mime @ ''\<newline>'' @
     ''DATA (Base64): data:'' @ mime @ '';base64,'' @ data @ ''\<newline>'' @
     ''INSTRUCTION: Wherever the code would logically use "/assets/uploads/My_Photo.png" (or if the user asked for this file), insert the DATA string above.\<newline>'' @
     ''\<newline>Generate the fully functional HTML application now.'' \<and>
   (k < length assets \<longrightarrow>
      js_includes (constructedPrompt prompt assets) (asset_block (assets ! k) k)) \<and>
   virtualPath name = ''/assets/uploads/'' @ replace_disallowed name \<and>
   length (replace_disallowed name) = length name \<and>
   (i < length name \<longrightarrow>
      replace_disallowed name ! i = (if allowed_char (name ! i) then name ! i else CHR ''_''))\<close>
  using virtualPath_My_Photo constructedPrompt_My_Photo [of prompt mime data]
    constructedPrompt_block [of k assets prompt] length_replace_disallowed [of name]
    nth_replace_disallowed [of i name]
  by (simp add: virtualPath_def)

theorem constructedPrompt_virtual_path_witness:
  "js_includes
     (constructedPrompt ''show it''
        [\<lparr>asset_name = ''My Photo.png'', asset_mimeType = ''image/png'', asset_data = ''iVBORw0KGgo=''\<rparr>])
     (asset_block
        \<lparr>asset_name = ''My Photo.png'', asset_mimeType = ''image/png'', asset_data = ''iVBORw0KGgo=''\<rparr> 0) \<and>
   replace_disallowed ''My Photo.png'' ! 2 = CHR ''_''"
proof -
  note t = constructedPrompt_virtual_path [where prompt = "''show it''" and mime = "''image/png''"
      and data = "''iVBORw0KGgo=''" and k = 0
      and assets = "[\<lparr>asset_name = ''My Photo.png'', asset_mimeType = ''image/png'',
                      asset_data = ''iVBORw0KGgo=''\<rparr>]"
      and name = "''My Photo.png''" and i = 2]
  show ?thesis
    using t [THEN conjunct2, THEN conjunct2, THEN conjunct1]
      t [THEN conjunct2, THEN conjunct2, THEN conjunct2, THEN conjunct2, THEN conjunct2]
    by (simp add: allowed_char_def del: js_includes.simps)
qed

text \<open>
  C8. Whatever the prompt and the attachments, the text part of the request ends with an
  instruction to generate the output. With asset files (\<^verbatim>\<open>part_001\<close>) it ends with a
  newline and \<^verbatim>\<open>Generate the fully functional HTML application now.\<close>; with image parts
  (\<^verbatim>\<open>part_000\<close>) it ends with \<^verbatim>\<open>Generate a web interface response.\<close> when there are images
  and with \<^verbatim>\<open>Generate the web interface for this request.\<close> when there are none.
\<close>

theorem prompt_ends_with_generate_instruction:
  "endsWith (constructedPrompt prompt assets)
     ''\<newline>Generate the fully functional HTML application now.'' \<and>
   endsWith (finalPrompt prompt images)
     (if length images > 0 then ''Generate a web interface response.''
      else ''Generate the web interface for this request.'')"
proof
  show "endsWith (constructedPrompt prompt assets)
     ''\<newline>Generate the fully functional HTML application now.''"
    unfolding constructedPrompt_def Let_def by (rule endsWith_append)
next
  show "endsWith (finalPrompt prompt images)
     (if length images > 0 then ''Generate a web interface response.''
      else ''Generate the web interface for this request.'')"
    by (simp add: finalPrompt_def endsWith_def)
qed

section \<open>Properties of \<^verbatim>\<open>bringToLife\<close> and \<^verbatim>\<open>refineCode\<close>\<close>

lemma normalize_output_placeholder: "normalize_output placeholder = placeholder"
  by (simp add: normalize_output_eval placeholder_def)

lemma str_or_empty: "a = None \<or> a = Some [] \<Longrightarrow> str_or a b = b"
  by (auto simp add: str_or_def)

text \<open>
  C9. When the invoker returns a response whose text is absent or empty, \<^verbatim>\<open>bringToLife\<close>
  does not fail: it returns the placeholder \<^verbatim>\<open><!-- Failed to generate content -->\<close>, an
  HTML comment, which the normalizer leaves as it is. This holds for the module with asset
  files and for the module with image parts.
\<close>

theorem bringToLife_empty_text:
  "(generateWithRetry
      (generateContent \<lparr>req_model = GEMINI_MODEL,
                         req_parts = [TextPart (constructedPrompt prompt assets)],
                         req_systemInstruction = SYSTEM_INSTRUCTION_001,
                         req_temperature_tenths = 6\<rparr>)
      default_retries default_delay w = (Inr response, w') \<and>
    (resp_text response = None \<or> resp_text response = Some []) \<longrightarrow>
    bringToLife_001 generateContent prompt assets w =
      (Inr ''<!-- Failed to generate content -->'', w')) \<and>
   (generateWithRetry
      (generateContent \<lparr>req_model = GEMINI_MODEL,
                         req_parts = TextPart (finalPrompt prompt images) #
                                     map (\<lambda>img. InlineData (img_data img) (img_mimeType img)) images,
                         req_systemInstruction = SYSTEM_INSTRUCTION_000,
                         req_temperature_tenths = 6\<rparr>)
      default_retries default_delay w = (Inr response0, w0) \<and>
    (resp_text response0 = None \<or> resp_text response0 = Some []) \<longrightarrow>
    bringToLife_000 generateContent prompt images w =
      (Inr ''<!-- Failed to generate content -->'', w0))"
proof -
  have p: "normalize_output placeholder = ''<!-- Failed to generate content -->''"
    using normalize_output_placeholder by (simp add: placeholder_def)
  show ?thesis
    by (auto simp add: bringToLife_001_def bringToLife_000_def str_or_empty p)
qed

theorem bringToLife_empty_text_witness:
  "bringToLife_001 (\<lambda>req s. (Inr \<lparr>resp_text = None\<rparr>, s)) ''a clock'' [] ((), []) =
     (Inr ''<!-- Failed to generate content -->'', (), [Invoke]) \<and>
   bringToLife_000 (\<lambda>req s. (Inr \<lparr>resp_text = Some []\<rparr>, s)) ''a clock'' [] ((), []) =
     (Inr ''<!-- Failed to generate content -->'', (), [Invoke])"
  using
    bringToLife_empty_text [where generateContent = "\<lambda>req s. (Inr \<lparr>resp_text = None\<rparr>, s)"
      and prompt = "''a clock''" and assets = "[]" and images = "[]" and w = "((), [])"
      and response = "\<lparr>resp_text = None\<rparr>" and w' = "((), [Invoke])"
      and ?response0.0 = "\<lparr>resp_text = None\<rparr>" and ?w0.0 = "((), [Invoke])"]
    bringToLife_empty_text [where generateContent = "\<lambda>req s. (Inr \<lparr>resp_text = Some []\<rparr>, s)"
      and prompt = "''a clock''" and assets = "[]" and images = "[]" and w = "((), [])"
      and response = "\<lparr>resp_text = Some []\<rparr>" and w' = "((), [Invoke])"
      and ?response0.0 = "\<lparr>resp_text = Some []\<rparr>" and ?w0.0 = "((), [Invoke])"]
  by (simp add: generateWithRetry_success)

text \<open>
  C10. When the invoker returns a response whose text is absent or empty, \<^verbatim>\<open>refineCode\<close>
  does not fail: it returns \<^verbatim>\<open>currentHtml\<close> after the normalizer, hence \<^verbatim>\<open>currentHtml\<close>
  itself whenever that has no marker at its start and none at its end. This holds for both
  modules.
\<close>

theorem refineCode_empty_text:
  "(generateWithRetry
      (generateContent \<lparr>req_model = GEMINI_MODEL,
                         req_parts = [TextPart (refine_prompt_001 currentHtml refinementPrompt newAssets)],
                         req_systemInstruction = SYSTEM_INSTRUCTION_001,
                         req_temperature_tenths = 5\<rparr>)
      default_retries default_delay w = (Inr response, w') \<and>
    (resp_text response = None \<or> resp_text response = Some []) \<longrightarrow>
    refineCode_001 generateContent currentHtml refinementPrompt newAssets w =
      (Inr (normalize_output currentHtml), w') \<and>
    (\<not> startsWith currentHtml fence \<and> \<not> endsWith currentHtml fence \<longrightarrow>
       refineCode_001 generateContent currentHtml refinementPrompt newAssets w =
         (Inr currentHtml, w'))) \<and>
   (generateWithRetry
      (generateContent \<lparr>req_model = GEMINI_MODEL,
                         req_parts = [TextPart (refine_prompt_000 currentHtml refinementPrompt)],
                         req_systemInstruction = SYSTEM_INSTRUCTION_000,
                         req_temperature_tenths = 5\<rparr>)
      default_retries default_delay w = (Inr response0, w0) \<and>
    (resp_text response0 = None \<or> resp_text response0 = Some []) \<longrightarrow>
    refineCode_000 generateContent currentHtml refinementPrompt w =
      (Inr (normalize_output currentHtml), w0) \<and>
    (\<not> startsWith currentHtml fence \<and> \<not> endsWith currentHtml fence \<longrightarrow>
       refineCode_000 generateContent currentHtml refinementPrompt w =
         (Inr currentHtml, w0)))"
proof -
  have with_assets:
    "refineCode_001 generateContent currentHtml refinementPrompt newAssets w =
       (Inr (normalize_output currentHtml), w')"
    if "generateWithRetry
          (generateContent \<lparr>req_model = GEMINI_MODEL,
             req_parts = [TextPart (refine_prompt_001 currentHtml refinementPrompt newAssets)],
             req_systemInstruction = SYSTEM_INSTRUCTION_001,
             req_temperature_tenths = 5\<rparr>)
          default_retries default_delay w = (Inr response, w')"
      and "resp_text response = None \<or> resp_text response = Some []"
    using that by (simp add: refineCode_001_def str_or_empty)
  have with_images:
    "refineCode_000 generateContent currentHtml refinementPrompt w =
       (Inr (normalize_output currentHtml), w0)"
    if "generateWithRetry
          (generateContent \<lparr>req_model = GEMINI_MODEL,
             req_parts = [TextPart (refine_prompt_000 currentHtml refinementPrompt)],
             req_systemInstruction = SYSTEM_INSTRUCTION_000,
             req_temperature_tenths = 5\<rparr>)
          default_retries default_delay w = (Inr response0, w0)"
      and "resp_text response0 = None \<or> resp_text response0 = Some []"
    using that by (simp add: refineCode_000_def str_or_empty)
  have unfenced: "normalize_output currentHtml = currentHtml"
    if "\<not> startsWith currentHtml fence \<and> \<not> endsWith currentHtml fence"
    using that normalize_output_unfenced by blast
  show ?thesis
    using with_assets with_images unfenced by auto
qed

theorem refineCode_empty_text_witness:
  "refineCode_001 (\<lambda>req s. (Inr \<lparr>resp_text = None\<rparr>, s)) ''<p>old</p>'' ''bigger'' [] ((), []) =
     (Inr ''<p>old</p>'', (), [Invoke]) \<and>
   refineCode_000 (\<lambda>req s. (Inr \<lparr>resp_text = Some []\<rparr>, s)) ''```<p>old</p>```'' ''bigger'' ((), []) =
     (Inr ''<p>old</p>'', (), [Invoke])"
  using
    refineCode_empty_text [where generateContent = "\<lambda>req s. (Inr \<lparr>resp_text = None\<rparr>, s)"
      and currentHtml = "''<p>old</p>''" and refinementPrompt = "''bigger''" and newAssets = "[]"
      and w = "((), [])"
      and response = "\<lparr>resp_text = None\<rparr>" and w' = "((), [Invoke])"
      and ?response0.0 = "\<lparr>resp_text = None\<rparr>" and ?w0.0 = "((), [Invoke])"]
    refineCode_empty_text [where generateContent = "\<lambda>req s. (Inr \<lparr>resp_text = Some []\<rparr>, s)"
      and currentHtml = "''```<p>old</p>```''" and refinementPrompt = "''bigger''" and newAssets = "[]"
      and w = "((), [])"
      and response = "\<lparr>resp_text = Some []\<rparr>" and w' = "((), [Invoke])"
      and ?response0.0 = "\<lparr>resp_text = Some []\<rparr>" and ?w0.0 = "((), [Invoke])"]
  by (simp add: generateWithRetry_success normalize_output_eval)

end
